theory Spec2Isabelle
  imports Complex_Main
begin

section \<open>JavaScript numbers\<close>

text \<open>
  A JavaScript number is modelled as an exact real or \<open>NaN\<close>. Arithmetic and the
  functions of \<open>Math\<close> propagate \<open>NaN\<close>; every comparison with \<open>NaN\<close> is false.
  Rounding and the two infinities are outside the model: a finite result is the exact
  real one. The code rounds the result of every operation to a double, so a distance or a
  centroid computed here can differ from the code's in its last digits, and two distances
  that the code computes as equal can differ here.
\<close>

datatype number = Num real | NaN

instantiation number :: "{plus, minus, times, inverse, ord}"
begin

definition plus_number :: "number \<Rightarrow> number \<Rightarrow> number" where
  "plus_number a b = (case a of Num x \<Rightarrow> (case b of Num y \<Rightarrow> Num (x + y) | NaN \<Rightarrow> NaN) | NaN \<Rightarrow> NaN)"

definition minus_number :: "number \<Rightarrow> number \<Rightarrow> number" where
  "minus_number a b = (case a of Num x \<Rightarrow> (case b of Num y \<Rightarrow> Num (x - y) | NaN \<Rightarrow> NaN) | NaN \<Rightarrow> NaN)"

definition times_number :: "number \<Rightarrow> number \<Rightarrow> number" where
  "times_number a b = (case a of Num x \<Rightarrow> (case b of Num y \<Rightarrow> Num (x * y) | NaN \<Rightarrow> NaN) | NaN \<Rightarrow> NaN)"

definition divide_number :: "number \<Rightarrow> number \<Rightarrow> number" where
  \<comment> \<open>\<open>x / 0\<close> is an infinity (or \<open>NaN\<close> for \<open>0 / 0\<close>) in JavaScript; without
      infinities the model answers \<open>NaN\<close>. Every divisor in the code below is nonzero.\<close>
  "divide_number a b =
     (case a of Num x \<Rightarrow> (case b of Num y \<Rightarrow> (if y = 0 then NaN else Num (x / y)) | NaN \<Rightarrow> NaN)
      | NaN \<Rightarrow> NaN)"

definition inverse_number :: "number \<Rightarrow> number" where
  "inverse_number a = (case a of Num x \<Rightarrow> (if x = 0 then NaN else Num (1 / x)) | NaN \<Rightarrow> NaN)"

definition less_number :: "number \<Rightarrow> number \<Rightarrow> bool" where
  "less_number a b = (case a of Num x \<Rightarrow> (case b of Num y \<Rightarrow> x < y | NaN \<Rightarrow> False) | NaN \<Rightarrow> False)"

definition less_eq_number :: "number \<Rightarrow> number \<Rightarrow> bool" where
  "less_eq_number a b = (case a of Num x \<Rightarrow> (case b of Num y \<Rightarrow> x \<le> y | NaN \<Rightarrow> False) | NaN \<Rightarrow> False)"

instance ..

end

definition isNaN :: "number \<Rightarrow> bool" where
  "isNaN a = (case a of Num x \<Rightarrow> False | NaN \<Rightarrow> True)"

definition loose_eq :: "number \<Rightarrow> number \<Rightarrow> bool" where
  \<comment> \<open>\<open>a == b\<close> on two numbers: \<open>NaN\<close> equals nothing, itself included.\<close>
  "loose_eq a b = (case a of Num x \<Rightarrow> (case b of Num y \<Rightarrow> x = y | NaN \<Rightarrow> False) | NaN \<Rightarrow> False)"

definition Math_sin :: "number \<Rightarrow> number" where
  "Math_sin a = (case a of Num x \<Rightarrow> Num (sin x) | NaN \<Rightarrow> NaN)"

definition Math_cos :: "number \<Rightarrow> number" where
  "Math_cos a = (case a of Num x \<Rightarrow> Num (cos x) | NaN \<Rightarrow> NaN)"

definition Math_sqrt :: "number \<Rightarrow> number" where
  "Math_sqrt a = (case a of Num x \<Rightarrow> (if x < 0 then NaN else Num (sqrt x)) | NaN \<Rightarrow> NaN)"

definition atan2_real :: "real \<Rightarrow> real \<Rightarrow> real" where
  "atan2_real y x =
     (if 0 < x then arctan (y / x)
      else if x < 0 then (if 0 \<le> y then arctan (y / x) + pi else arctan (y / x) - pi)
      else if 0 < y then pi / 2
      else if y < 0 then - (pi / 2)
      else 0)"

definition Math_atan2 :: "number \<Rightarrow> number \<Rightarrow> number" where
  "Math_atan2 a b = (case a of Num y \<Rightarrow> (case b of Num x \<Rightarrow> Num (atan2_real y x) | NaN \<Rightarrow> NaN) | NaN \<Rightarrow> NaN)"

definition Math_PI :: number where
  "Math_PI = Num pi"

section \<open>Points and clusters\<close>

text \<open>
  A row of \<open>points\<close> in \<^verbatim>\<open>map-data.js\<close> is the array
  \<^verbatim>\<open>[latitude, longitude, region, year_opened_low, year_opened_high, year_closed_low]\<close>;
  the fields below are its indices 0 to 5.
\<close>

record point =
  latitude :: number
  longitude :: number
  region :: string
  year_opened_low :: number
  year_opened_high :: number
  year_closed_low :: number

type_synonym coords = "number \<times> number"

text \<open>A group is the array \<^verbatim>\<open>[[lat, lon], count]\<close>.\<close>

type_synonym group = "coords \<times> nat"

definition point_coords :: "point \<Rightarrow> coords" where
  \<comment> \<open>the destructuring \<^verbatim>\<open>[lat1, lon1] = coords1\<close> of a row\<close>
  "point_coords p = (latitude p, longitude p)"

subsection \<open>\<^verbatim>\<open>Map.#groupCoordinates\<close>\<close>

definition haversineDistance :: "coords \<Rightarrow> coords \<Rightarrow> number" where
  "haversineDistance coords1 coords2 =
     (case coords1 of (lat1, lon1) \<Rightarrow> case coords2 of (lat2, lon2) \<Rightarrow>
        let R = Num 6371;
            dLat = (lat2 - lat1) * (Math_PI / Num 180);
            dLon = (lon2 - lon1) * (Math_PI / Num 180);
            a = Math_sin (dLat / Num 2) * Math_sin (dLat / Num 2)
                + Math_cos (lat1 * (Math_PI / Num 180)) * Math_cos (lat2 * (Math_PI / Num 180))
                  * Math_sin (dLon / Num 2) * Math_sin (dLon / Num 2);
            c = Num 2 * Math_atan2 (Math_sqrt a) (Math_sqrt (Num 1 - a));
            distance = R * c
        in distance)"

text \<open>
  The \<^verbatim>\<open>for\<close> loop of \<^verbatim>\<open>mergeIntoClosestGroup\<close>, from index \<open>i\<close> on, with the
  two variables it updates; \<open>None\<close> is \<^verbatim>\<open>null\<close>.
\<close>

function findClosest ::
  "point \<Rightarrow> group list \<Rightarrow> nat \<Rightarrow> nat option \<Rightarrow> number \<Rightarrow> nat option \<times> number" where
  "findClosest point groups i closestGroup shortestDistance =
     (if i < length groups then
        (let distance = haversineDistance (point_coords point) (fst (groups ! i))
         in if distance < shortestDistance
            then findClosest point groups (i + 1) (Some i) distance
            else findClosest point groups (i + 1) closestGroup shortestDistance)
      else (closestGroup, shortestDistance))"
  by pat_completeness auto
termination
  by (relation "measure (\<lambda>(point, groups, i, closestGroup, shortestDistance). length groups - i)") auto

declare findClosest.simps [simp del]

definition mergeIntoClosestGroup :: "number \<Rightarrow> point \<Rightarrow> group list \<Rightarrow> group list" where
  "mergeIntoClosestGroup maxDistance point groups =
     (case fst (findClosest point groups 0 None maxDistance) of
        Some closestGroup \<Rightarrow>
          (let group = groups ! closestGroup;
               groupPoint = fst group;
               count = snd group;
               newLat = (fst groupPoint * Num (real count) + latitude point) / Num (real (count + 1));
               newLon = (snd groupPoint * Num (real count) + longitude point) / Num (real (count + 1))
           in groups[closestGroup := ((newLat, newLon), count + 1)])
      | None \<Rightarrow> groups @ [((latitude point, longitude point), 1)])"

definition groupCoordinates :: "point list \<Rightarrow> number \<Rightarrow> group list" where
  "groupCoordinates coordinates maxDistance =
     foldl (\<lambda>groups point. mergeIntoClosestGroup maxDistance point groups) [] coordinates"

definition totalNumberOfPoints :: "group list \<Rightarrow> nat" where
  \<comment> \<open>\<^verbatim>\<open>d3.sum(data, d => d[1])\<close>\<close>
  "totalNumberOfPoints data = sum_list (map snd data)"


subsection \<open>Descriptions used in the statements\<close>


definition dist_to :: "point \<Rightarrow> group list \<Rightarrow> nat \<Rightarrow> number" where
  \<comment> \<open>the distance computed in iteration \<open>j\<close> of the loop\<close>
  "dist_to point groups j = haversineDistance (point_coords point) (fst (groups ! j))"

definition weighted_mean :: "number \<Rightarrow> nat \<Rightarrow> number \<Rightarrow> number" where
  \<comment> \<open>the mean of \<open>count\<close> values of mean \<open>m\<close> and one more value \<open>x\<close>\<close>
  "weighted_mean m count x = (m * Num (real count) + x) / Num (real (count + 1))"

definition merged :: "group \<Rightarrow> point \<Rightarrow> group" where
  "merged g point =
     ((weighted_mean (fst (fst g)) (snd g) (latitude point),
       weighted_mean (snd (fst g)) (snd g) (longitude point)), snd g + 1)"

definition closest_upto ::
  "number \<Rightarrow> point \<Rightarrow> group list \<Rightarrow> nat \<Rightarrow> nat option \<Rightarrow> number \<Rightarrow> bool" where
  \<comment> \<open>what the two loop variables hold when the loop reaches index \<open>i\<close>\<close>
  "closest_upto maxDistance point groups i cg sd =
     (case cg of
        None \<Rightarrow> sd = maxDistance \<and> (\<forall>j<i. \<not> dist_to point groups j < maxDistance)
      | Some k \<Rightarrow> k < i \<and> sd = dist_to point groups k \<and> dist_to point groups k < maxDistance
          \<and> (\<forall>j<i. \<not> dist_to point groups j < dist_to point groups k)
          \<and> (\<forall>j<k. \<not> dist_to point groups j \<le> dist_to point groups k))"



definition all_within :: "number \<Rightarrow> point list \<Rightarrow> bool" where
  \<comment> \<open>every point is strictly within the threshold of every point of the list\<close>
  "all_within maxDistance pts =
     list_all (\<lambda>p. list_all (\<lambda>q. haversineDistance (point_coords p) (point_coords q) < maxDistance) pts) pts"

section \<open>The time series of the line chart (\<^verbatim>\<open>map-data.js\<close>)\<close>

text \<open>A rollup is an array of \<^verbatim>\<open>[key, count]\<close> entries.\<close>

type_synonym rollup = "(number \<times> nat) list"

fun rollup_add :: "rollup \<Rightarrow> number \<Rightarrow> rollup" where
  "rollup_add [] k = [(k, 1)]"
| "rollup_add ((k', n) # rest) k = (if k' = k then (k', n + 1) # rest else (k', n) # rollup_add rest k)"

text \<open>
  Modelled from the spec: \<^verbatim>\<open>d3.rollups\<close> belongs to the charting library, which is not
  among the sources. \<^verbatim>\<open>d3.rollups(data, D => D.length, key)\<close> gives the time series its
  counts: one entry per distinct key, in the order of first occurrence, holding the number
  of rows with that key.
\<close>

definition rollups_length :: "point list \<Rightarrow> (point \<Rightarrow> number) \<Rightarrow> rollup" where
  "rollups_length dat key = foldl rollup_add [] (map key dat)"

fun sort_insert :: "number \<times> nat \<Rightarrow> rollup \<Rightarrow> rollup" where
  "sort_insert x [] = [x]"
| "sort_insert x (y # ys) = (if fst x - fst y < Num 0 then x # y # ys else y # sort_insert x ys)"

definition sort_ascending :: "rollup \<Rightarrow> rollup" where
  \<comment> \<open>\<^verbatim>\<open>roll.sort((a, b) => a[0] - b[0])\<close>, a stable sort: keys that are all numbers
      come out in ascending order. An entry with a \<open>NaN\<close> key cannot be ordered by the
      comparator; where the engine leaves it and its neighbours depends on the engine's
      algorithm and need not be what insertion from the left gives here\<close>
  "sort_ascending roll = foldl (\<lambda>acc x. sort_insert x acc) [] roll"

definition calculateRollup :: "point list \<Rightarrow> rollup list" where
  "calculateRollup dat =
     (let openedRoll = rollups_length dat year_opened_high;
          closedRoll = rollups_length (filter (\<lambda>d. \<not> isNaN (year_closed_low d)) dat) year_closed_low
      in [sort_ascending openedRoll, sort_ascending closedRoll])"

definition filterLineChartData :: "point list \<Rightarrow> rollup list" where
  "filterLineChartData dat =
     (let newData = filter (\<lambda>d. \<not> ((loose_eq (year_opened_low d) (Num 1945)
                                      \<or> loose_eq (year_opened_low d) (Num 1960))
                                     \<and> loose_eq (year_opened_high d) (Num 2017))) dat
      in calculateRollup newData)"

section \<open>The page: map, line chart and slider\<close>

datatype error = TypeError | DrawError

text \<open>
  What can throw inside a \<^verbatim>\<open>try\<close> block without being part of the typed model is a
  parameter: whether a drawing call of the charting library throws on the data it is
  given, and whether the callback of \<^verbatim>\<open>filter\<close> throws on the rows of an array, as it
  does on a row of unexpected shape (a row that is \<^verbatim>\<open>null\<close> has no index 2).
\<close>

record renderer =
  map_throws :: "group list \<Rightarrow> bool"
  chart_throws :: "rollup list \<Rightarrow> bool"
  filter_throws :: "point list \<Rightarrow> bool"

text \<open>
  The fields of the \<^verbatim>\<open>Map\<close> instance \<^verbatim>\<open>mapRegions\<close> that the filters read and write,
  \<^verbatim>\<open>lineChart.data\<close>, \<^verbatim>\<open>slider.currentValue\<close> and the console. A region path carries
  its \<^verbatim>\<open>name\<close> and its \<^verbatim>\<open>data-highlighted\<close> attribute. \<open>None\<close> is \<^verbatim>\<open>undefined\<close>;
  an undefined radius is \<open>NaN\<close>, which is how it compares.
\<close>

record page =
  regions :: "(string \<times> string) list"
  selectedRegions :: "string set"
  data :: "point list option"
  filteredData :: "point list option"
  maxRadius :: number
  groupRadius :: number
  pointScale :: "(number \<Rightarrow> number) option"
  circles :: "group list"
  lineChart_data :: "rollup list option"
  currentValue :: number
  console :: "error list"

definition catch_log :: "page \<times> error option \<Rightarrow> page" where
  \<comment> \<open>\<^verbatim>\<open>catch (e) { console.log(e); }\<close> around a block that ended in the given state\<close>
  "catch_log r = (case r of (s, None) \<Rightarrow> s | (s, Some e) \<Rightarrow> s\<lparr>console := console s @ [e]\<rparr>)"

subsection \<open>Region selection (\<^verbatim>\<open>Map.js\<close>)\<close>

definition baseMap :: "string list \<Rightarrow> page \<Rightarrow> page" where
  "baseMap names s =
     s\<lparr>regions := map (\<lambda>name. (name, ''true'')) names, selectedRegions := set names\<rparr>"

definition toggleRegion :: "nat \<Rightarrow> page \<Rightarrow> page" where
  \<comment> \<open>a click on the \<open>i\<close>-th region path; there is no click on a path that does not exist\<close>
  "toggleRegion i s =
     (if i < length (regions s) then
        (let name = fst (regions s ! i);
             isHighlighted = (snd (regions s ! i) = ''true'')
         in s\<lparr>regions := (regions s)[i := (name, if isHighlighted then ''false'' else ''true'')],
              selectedRegions := (if \<not> isHighlighted then insert name (selectedRegions s)
                                  else selectedRegions s - {name})\<rparr>)
      else s)"

subsection \<open>The point-size scale (\<^verbatim>\<open>Map.js\<close>)\<close>

text \<open>
  Modelled from the spec: \<^verbatim>\<open>d3.max\<close> belongs to the charting library, which is not
  among the sources. It is the maximum cluster count across the cluster set, and
  \<^verbatim>\<open>undefined\<close>, as a number \<open>NaN\<close>, when there is no cluster.
\<close>

definition d3_max :: "nat list \<Rightarrow> number" where
  "d3_max ns = (case ns of [] \<Rightarrow> NaN | n # rest \<Rightarrow> Num (real (foldl max n rest)))"

text \<open>
  Modelled from the spec: \<^verbatim>\<open>d3.scaleSqrt\<close> belongs to the charting library, which is
  not among the sources. The radius is proportional to the square root of the count,
  the lower end of the domain maps to the lower end of the range and the upper end to
  the upper end.
\<close>

definition scaleSqrt :: "number \<times> number \<Rightarrow> number \<times> number \<Rightarrow> number \<Rightarrow> number" where
  "scaleSqrt domain_arg range_arg x =
     (case domain_arg of (d0, d1) \<Rightarrow> case range_arg of (r0, r1) \<Rightarrow>
        r0 + (Math_sqrt x - Math_sqrt d0) / (Math_sqrt d1 - Math_sqrt d0) * (r1 - r0))"

definition createSqrtScale :: "point list \<Rightarrow> page \<Rightarrow> number \<Rightarrow> number" where
  "createSqrtScale dat s =
     (let groups = groupCoordinates dat (groupRadius s);
          max_count = d3_max (map snd groups)
      in scaleSqrt (Num 0, max_count) (Num 0, maxRadius s))"

subsection \<open>Rendering (\<^verbatim>\<open>Map.js\<close>, \<^verbatim>\<open>LineChart.js\<close>)\<close>

definition render_points :: "renderer \<Rightarrow> point list \<Rightarrow> page \<Rightarrow> page \<times> error option" where
  \<comment> \<open>the private \<^verbatim>\<open>#renderGroupedPoints\<close>: the clusters are bound to the circles\<close>
  "render_points env dat s =
     (let groupedData = groupCoordinates dat (groupRadius s)
      in if map_throws env groupedData then (s, Some DrawError)
         else (s\<lparr>circles := groupedData\<rparr>, None))"

definition renderGroupedPoints ::
  "renderer \<Rightarrow> point list \<Rightarrow> number option \<Rightarrow> number option \<Rightarrow> page \<Rightarrow> page \<times> error option" where
  \<comment> \<open>an argument left out (\<open>None\<close>) takes its default, 15 and 40\<close>
  "renderGroupedPoints env dataset maxRadius_arg groupRadius_arg s =
     (let s1 = s\<lparr>data := Some dataset, filteredData := Some dataset,
                  maxRadius := (case maxRadius_arg of None \<Rightarrow> Num 15 | Some r \<Rightarrow> r),
                  groupRadius := (case groupRadius_arg of None \<Rightarrow> Num 40 | Some r \<Rightarrow> r)\<rparr>;
          s2 = s1\<lparr>pointScale := Some (createSqrtScale dataset s1)\<rparr>
      in render_points env dataset s2)"

definition updatePoints :: "renderer \<Rightarrow> point list \<Rightarrow> page \<Rightarrow> page \<times> error option" where
  "updatePoints env newData s = render_points env newData s"

definition lineChart_render :: "renderer \<Rightarrow> rollup list \<Rightarrow> page \<Rightarrow> page \<times> error option" where
  \<comment> \<open>\<^verbatim>\<open>LineChart.render\<close> stores the datasets, then draws\<close>
  "lineChart_render env datasets s =
     (s\<lparr>lineChart_data := Some datasets\<rparr>, if chart_throws env datasets then Some DrawError else None)"

subsection \<open>The filters (\<^verbatim>\<open>map-data.js\<close>)\<close>

definition open_at :: "number \<Rightarrow> point \<Rightarrow> bool" where
  \<comment> \<open>the arrow function of \<^verbatim>\<open>filterOnDate\<close>\<close>
  "open_at date d = (year_opened_low d \<le> date \<and> (year_closed_low d > date \<or> isNaN (year_closed_low d)))"

definition filterOnDate_try :: "renderer \<Rightarrow> number \<Rightarrow> page \<Rightarrow> page \<times> error option" where
  \<comment> \<open>the \<^verbatim>\<open>try\<close> block: the state it ends in and the exception it throws, if any\<close>
  "filterOnDate_try env date s =
     (case filteredData s of
        None \<Rightarrow> (s, Some TypeError)
      | Some fd \<Rightarrow>
          if filter_throws env fd then (s, Some TypeError)
          else
          (let newData = filter (open_at date) fd
           in case updatePoints env newData s of
                (s1, Some e) \<Rightarrow> (s1, Some e)
              | (s1, None) \<Rightarrow>
                  (case filteredData s1 of
                     None \<Rightarrow> (s1, Some TypeError)
                   | Some fd1 \<Rightarrow> lineChart_render env (filterLineChartData fd1) s1)))"

definition filterOnDate :: "renderer \<Rightarrow> number \<Rightarrow> page \<Rightarrow> page" where
  "filterOnDate env date s = catch_log (filterOnDate_try env date s)"

definition mapRegionsFilterOnDate :: "renderer \<Rightarrow> number \<Rightarrow> page \<Rightarrow> page" where
  "mapRegionsFilterOnDate env date s = filterOnDate env date s"

definition filterOnRegion_try :: "renderer \<Rightarrow> string set \<Rightarrow> page \<Rightarrow> page \<times> error option" where
  "filterOnRegion_try env selected s =
     (case data s of
        None \<Rightarrow> (s, Some TypeError)
      | Some full \<Rightarrow>
          if filter_throws env full then (s, Some TypeError)
          else
          (let newData = filter (\<lambda>d. region d \<in> selected) full;
               s1 = s\<lparr>filteredData := Some newData\<rparr>
           in (mapRegionsFilterOnDate env (currentValue s1) s1, None)))"

definition filterOnRegion :: "renderer \<Rightarrow> string set \<Rightarrow> page \<Rightarrow> page" where
  "filterOnRegion env selected s = catch_log (filterOnRegion_try env selected s)"

definition region_click :: "renderer \<Rightarrow> nat \<Rightarrow> page \<Rightarrow> page" where
  \<comment> \<open>the click handler of \<^verbatim>\<open>#renderMap\<close> with \<^verbatim>\<open>filterOnRegion\<close> as the callback\<close>
  "region_click env i s = (let s1 = toggleRegion i s in filterOnRegion env (selectedRegions s1) s1)"

definition sliderCallback :: "renderer \<Rightarrow> page \<Rightarrow> page" where
  "sliderCallback env s = mapRegionsFilterOnDate env (currentValue s) s"

definition slider_drag :: "renderer \<Rightarrow> number \<Rightarrow> page \<Rightarrow> page" where
  \<comment> \<open>the drag handler of \<^verbatim>\<open>Slider\<close>: the value is stored, then the callback runs\<close>
  "slider_drag env roundedValue s = sliderCallback env (s\<lparr>currentValue := roundedValue\<rparr>)"

definition slider_tick :: "renderer \<Rightarrow> number \<Rightarrow> page \<Rightarrow> page" where
  \<comment> \<open>a step of \<^verbatim>\<open>#animateSlider\<close>: the callback runs, then the value is stored\<close>
  "slider_tick env currentDate s = (sliderCallback env s)\<lparr>currentValue := currentDate\<rparr>"

subsection \<open>Events\<close>

text \<open>
  The two inputs of the page after loading: a click on a region path, and a move of the
  slider, by dragging or by a step of the animation.
\<close>

datatype event = RegionClicked nat | SliderDragged number | SliderPlayed number

fun handle :: "renderer \<Rightarrow> page \<Rightarrow> event \<Rightarrow> page" where
  "handle env s (RegionClicked i) = region_click env i s"
| "handle env s (SliderDragged v) = slider_drag env v s"
| "handle env s (SliderPlayed v) = slider_tick env v s"

definition run_events :: "renderer \<Rightarrow> page \<Rightarrow> event list \<Rightarrow> page" where
  "run_events env s es = foldl (handle env) s es"

definition new_page :: "number \<Rightarrow> page" where
  \<comment> \<open>after the three constructors: the fields of the map are undefined, the slider
      holds its start date\<close>
  "new_page startDate =
     \<lparr>regions = [], selectedRegions = {}, data = None, filteredData = None,
      maxRadius = NaN, groupRadius = NaN, pointScale = None, circles = [],
      lineChart_data = None, currentValue = startDate, console = []\<rparr>"

subsection \<open>Descriptions of the selection state\<close>

definition flag_agrees :: "page \<Rightarrow> nat \<Rightarrow> bool" where
  \<comment> \<open>the \<open>i\<close>-th path is marked highlighted exactly if its name is selected\<close>
  "flag_agrees s i = ((snd (regions s ! i) = ''true'') = (fst (regions s ! i) \<in> selectedRegions s))"

definition selection_ok :: "page \<Rightarrow> bool" where
  \<comment> \<open>the names are pairwise distinct and every attribute agrees with the selection\<close>
  "selection_ok s = (distinct (map fst (regions s)) \<and> (\<forall>i<length (regions s). flag_agrees s i))"

definition quiet :: "renderer \<Rightarrow> bool" where
  \<comment> \<open>no drawing call and no callback of a filter throws\<close>
  "quiet env = ((\<forall>groups. \<not> map_throws env groups) \<and> (\<forall>datasets. \<not> chart_throws env datasets)
     \<and> (\<forall>rows. \<not> filter_throws env rows))"

definition known_open :: "number \<Rightarrow> point \<Rightarrow> bool" where
  \<comment> \<open>the reference date and the low opening year are numbers, the year at most the date,
      and the low closing year is \<open>NaN\<close> or a number above the date\<close>
  "known_open date d =
     (case date of
        NaN \<Rightarrow> False
      | Num D \<Rightarrow>
          (case year_opened_low d of NaN \<Rightarrow> False | Num y \<Rightarrow> y \<le> D)
          \<and> (case year_closed_low d of NaN \<Rightarrow> True | Num y \<Rightarrow> D < y))"

definition artifact :: "point \<Rightarrow> bool" where
  \<comment> \<open>the low opening year is 1945 or 1960 and the high opening year is 2017\<close>
  "artifact d =
     ((year_opened_low d = Num 1945 \<or> year_opened_low d = Num 1960) \<and> year_opened_high d = Num 2017)"

definition scale_at :: "page \<Rightarrow> number \<Rightarrow> number option" where
  \<comment> \<open>the radius that the scale of the page gives a count; \<open>None\<close> without a scale\<close>
  "scale_at s x = map_option (\<lambda>scale. scale x) (pointScale s)"

section \<open>Sample inputs\<close>

definition museum :: "real \<Rightarrow> real \<Rightarrow> point" where
  \<comment> \<open>a museum of England at the given place, opened in 1990 and not closed\<close>
  "museum lat lon = \<lparr>latitude = Num lat, longitude = Num lon, region = ''England'',
      year_opened_low = Num 1990, year_opened_high = Num 1990, year_closed_low = NaN\<rparr>"

definition origin :: point where
  "origin = museum 0 0"


definition twins :: "group list" where
  \<comment> \<open>two clusters with the same centroid\<close>
  "twins = [((Num 0, Num 0), 1), ((Num 0, Num 0), 1)]"

definition dateline :: "point list" where
  \<comment> \<open>three museums on the 180th meridian\<close>
  "dateline = [museum 0 180, museum 0 (- 180), museum 0 180]"


definition sound_renderer :: renderer where
  \<comment> \<open>drawing calls that never throw, and rows that can all be read\<close>
  "sound_renderer = \<lparr>map_throws = (\<lambda>groups. False), chart_throws = (\<lambda>datasets. False),
     filter_throws = (\<lambda>rows. False)\<rparr>"

definition stuck_renderer :: renderer where
  \<comment> \<open>the drawing of the map throws\<close>
  "stuck_renderer = \<lparr>map_throws = (\<lambda>groups. True), chart_throws = (\<lambda>datasets. False),
     filter_throws = (\<lambda>rows. False)\<rparr>"

definition unreadable_rows :: renderer where
  \<comment> \<open>the callback of a filter throws on the rows\<close>
  "unreadable_rows = \<lparr>map_throws = (\<lambda>groups. False), chart_throws = (\<lambda>datasets. False),
     filter_throws = (\<lambda>rows. True)\<rparr>"

definition uk :: "string list" where
  "uk = [''Scotland'', ''England'', ''Wales'', ''Northern Ireland'']"

definition museum_years :: "number \<Rightarrow> number \<Rightarrow> number \<Rightarrow> point" where
  \<comment> \<open>a museum at latitude 51, longitude 0 with the given years\<close>
  "museum_years opened_low opened_high closed_low =
     \<lparr>latitude = Num 51, longitude = Num 0, region = ''England'',
      year_opened_low = opened_low, year_opened_high = opened_high, year_closed_low = closed_low\<rparr>"

definition one_museum_page :: page where
  \<comment> \<open>the four countries and one museum, rendered with the default radii\<close>
  "one_museum_page =
     fst (renderGroupedPoints sound_renderer [museum 51 0] None None (baseMap uk (new_page (Num 1990))))"

definition artifact_page :: page where
  \<comment> \<open>one museum of unknown opening year, recorded as opened between 1945 and 2017\<close>
  "artifact_page =
     fst (renderGroupedPoints sound_renderer [museum_years (Num 1945) (Num 2017) NaN] None None
            (baseMap uk (new_page (Num 1945))))"

definition two_museums :: "point list" where
  \<comment> \<open>two museums at one place, opened in 1990 and in 2000\<close>
  "two_museums = [museum 51 0, museum_years (Num 2000) (Num 2000) NaN]"

definition two_museums_page :: page where
  "two_museums_page =
     fst (renderGroupedPoints sound_renderer two_museums None None (baseMap uk (new_page (Num 1990))))"

section \<open>The search loop\<close>

lemma findClosest_index:
  "findClosest point groups i cg sd = (Some k, sd') \<Longrightarrow> cg = Some k \<or> (i \<le> k \<and> k < length groups)"
proof (induction point groups i cg sd rule: findClosest.induct)
  case (1 point groups i cg sd)
  show ?case
  proof (cases "i < length groups")
    case False
    with "1.prems" show ?thesis by (simp add: findClosest.simps)
  next
    case True
    let ?d = "haversineDistance (point_coords point) (fst (groups ! i))"
    show ?thesis
    proof (cases "?d < sd")
      case near: True
      from "1.prems" True near
      have "findClosest point groups (i + 1) (Some i) ?d = (Some k, sd')"
        by (simp add: findClosest.simps [of point groups i])
      from "1.IH"(1) [OF True refl near this] True show ?thesis by auto
    next
      case far: False
      from "1.prems" True far
      have "findClosest point groups (i + 1) cg sd = (Some k, sd')"
        by (simp add: findClosest.simps [of point groups i])
      from "1.IH"(2) [OF True refl far this] show ?thesis by auto
    qed
  qed
qed

lemma findClosest_bound:
  "fst (findClosest point groups 0 None maxDistance) = Some k \<Longrightarrow> k < length groups"
  using findClosest_index [of point groups 0 None maxDistance k]
  by (cases "findClosest point groups 0 None maxDistance") auto

section \<open>Counts\<close>

lemma counts_update:
  fixes groups :: "('a \<times> nat) list"
  assumes "k < length groups"
  shows "sum_list (map snd (groups[k := (c, Suc (snd (groups ! k)))])) = Suc (sum_list (map snd groups))"
proof -
  have "sum_list (map snd (groups[k := (c, Suc (snd (groups ! k)))]))
        = sum_list ((map snd groups)[k := Suc (snd (groups ! k))])"
    by (simp add: map_update)
  also have "\<dots> = sum_list (map snd groups) + Suc (snd (groups ! k)) - map snd groups ! k"
    using assms by (simp add: sum_list_update)
  also have "\<dots> = Suc (sum_list (map snd groups))"
    using assms by simp
  finally show ?thesis .
qed

lemma merge_total:
  "totalNumberOfPoints (mergeIntoClosestGroup maxDistance point groups) = totalNumberOfPoints groups + 1"
proof (cases "fst (findClosest point groups 0 None maxDistance)")
  case None
  then show ?thesis by (simp add: mergeIntoClosestGroup_def totalNumberOfPoints_def)
next
  case (Some k)
  then have "k < length groups" by (rule findClosest_bound)
  with Some show ?thesis
    by (simp add: mergeIntoClosestGroup_def totalNumberOfPoints_def Let_def counts_update)
qed

lemma foldl_merge_total:
  "totalNumberOfPoints (foldl (\<lambda>groups point. mergeIntoClosestGroup maxDistance point groups) gs coordinates)
   = totalNumberOfPoints gs + length coordinates"
  by (induction coordinates arbitrary: gs) (simp_all add: merge_total)

text \<open>
  C2. For every list of points and every threshold the counts of the clusters returned
  by \<open>groupCoordinates\<close> add up to the number of points; no points give no cluster, and
  one point gives one cluster of count 1 at that point.
\<close>

theorem groupCoordinates_total:
  "totalNumberOfPoints (groupCoordinates coordinates maxDistance) = length coordinates
   \<and> groupCoordinates [] maxDistance = []
   \<and> groupCoordinates [p] maxDistance = [((latitude p, longitude p), 1)]"
proof -
  have "totalNumberOfPoints (groupCoordinates coordinates maxDistance) = length coordinates"
    using foldl_merge_total [of maxDistance "[]" coordinates]
    by (simp add: groupCoordinates_def totalNumberOfPoints_def)
  moreover have "groupCoordinates [] maxDistance = []"
    by (simp add: groupCoordinates_def)
  moreover have "groupCoordinates [p] maxDistance = [((latitude p, longitude p), 1)]"
    by (simp add: groupCoordinates_def mergeIntoClosestGroup_def findClosest.simps)
  ultimately show ?thesis by simp
qed

section \<open>Order of numbers\<close>

lemma number_less_irrefl: "\<not> (a::number) < a"
  by (simp add: less_number_def split: number.splits)

lemma number_less_trans: "(a::number) < b \<Longrightarrow> b < c \<Longrightarrow> a < c"
  by (auto simp: less_number_def split: number.splits)

lemma number_not_less_below: "(a::number) < b \<Longrightarrow> \<not> c < b \<Longrightarrow> \<not> c < a"
  by (auto simp: less_number_def split: number.splits)

lemma number_not_le_below: "(a::number) < b \<Longrightarrow> \<not> c < b \<Longrightarrow> \<not> c \<le> a"
  by (auto simp: less_number_def less_eq_number_def split: number.splits)

lemma number_le_not_less: "(b::number) \<le> a \<Longrightarrow> \<not> a < b"
  by (auto simp: less_number_def less_eq_number_def split: number.splits)

lemma number_eq_or_le:
  "(a::number) < m \<Longrightarrow> b < m \<Longrightarrow> \<not> a < b \<Longrightarrow> \<not> b < a \<Longrightarrow> a = b \<and> a \<le> b"
  by (auto simp: less_number_def less_eq_number_def split: number.splits)

lemma closest_upto_step_near:
  assumes inv: "closest_upto maxDistance point groups i cg sd"
    and near: "dist_to point groups i < sd"
  shows "closest_upto maxDistance point groups (Suc i) (Some i) (dist_to point groups i)"
proof -
  let ?d = "dist_to point groups"
  have sd_le: "sd = maxDistance \<or> sd < maxDistance"
    using inv by (auto simp: closest_upto_def split: option.splits)
  have below: "\<forall>j<i. \<not> ?d j < sd"
    using inv by (auto simp: closest_upto_def split: option.splits)
  have "?d i < maxDistance"
    using sd_le near by (auto intro: number_less_trans)
  moreover have "\<forall>j<Suc i. \<not> ?d j < ?d i"
  proof (intro allI impI)
    fix j assume "j < Suc i"
    then consider "j = i" | "j < i" by (auto simp: less_Suc_eq)
    then show "\<not> ?d j < ?d i"
    proof cases
      case 1
      then show ?thesis by (simp add: number_less_irrefl)
    next
      case 2
      with below have "\<not> ?d j < sd" by simp
      with near show ?thesis by (rule number_not_less_below)
    qed
  qed
  moreover have "\<forall>j<i. \<not> ?d j \<le> ?d i"
  proof (intro allI impI)
    fix j assume "j < i"
    with below have "\<not> ?d j < sd" by simp
    with near show "\<not> ?d j \<le> ?d i" by (rule number_not_le_below)
  qed
  ultimately show ?thesis by (simp add: closest_upto_def)
qed

lemma closest_upto_step_far:
  assumes inv: "closest_upto maxDistance point groups i cg sd"
    and far: "\<not> dist_to point groups i < sd"
  shows "closest_upto maxDistance point groups (Suc i) cg sd"
  using assms by (auto simp: closest_upto_def less_Suc_eq split: option.splits)

lemma findClosest_inv:
  "findClosest point groups i cg sd = (cg', sd') \<Longrightarrow> i \<le> length groups \<Longrightarrow>
   closest_upto maxDistance point groups i cg sd \<Longrightarrow>
   closest_upto maxDistance point groups (length groups) cg' sd'"
proof (induction point groups i cg sd rule: findClosest.induct)
  case (1 point groups i cg sd)
  show ?case
  proof (cases "i < length groups")
    case False
    with "1.prems" show ?thesis by (simp add: findClosest.simps)
  next
    case True
    let ?d = "haversineDistance (point_coords point) (fst (groups ! i))"
    show ?thesis
    proof (cases "?d < sd")
      case near: True
      from "1.prems"(1) True near
      have run: "findClosest point groups (i + 1) (Some i) ?d = (cg', sd')"
        by (simp add: findClosest.simps [of point groups i])
      have "closest_upto maxDistance point groups (i + 1) (Some i) ?d"
        using closest_upto_step_near [OF "1.prems"(3)] near by (simp add: dist_to_def)
      with "1.IH"(1) [OF True refl near run] True show ?thesis by simp
    next
      case far: False
      from "1.prems"(1) True far
      have run: "findClosest point groups (i + 1) cg sd = (cg', sd')"
        by (simp add: findClosest.simps [of point groups i])
      have "closest_upto maxDistance point groups (i + 1) cg sd"
        using closest_upto_step_far [OF "1.prems"(3)] far by (simp add: dist_to_def)
      with "1.IH"(2) [OF True refl far run] True show ?thesis by simp
    qed
  qed
qed

lemma findClosest_result:
  "closest_upto maxDistance point groups (length groups)
     (fst (findClosest point groups 0 None maxDistance)) (snd (findClosest point groups 0 None maxDistance))"
  using findClosest_inv [of point groups 0 None maxDistance _ _ maxDistance]
  by (simp add: closest_upto_def)


section \<open>One merge step\<close>

lemma merge_Some:
  "fst (findClosest point groups 0 None maxDistance) = Some k \<Longrightarrow>
   mergeIntoClosestGroup maxDistance point groups = groups[k := merged (groups ! k) point]"
  by (simp add: mergeIntoClosestGroup_def merged_def weighted_mean_def Let_def)

lemma merge_None:
  "fst (findClosest point groups 0 None maxDistance) = None \<Longrightarrow>
   mergeIntoClosestGroup maxDistance point groups = groups @ [((latitude point, longitude point), 1)]"
  by (simp add: mergeIntoClosestGroup_def)

lemma merge_none_within:
  assumes "\<forall>j<length groups. \<not> dist_to point groups j < maxDistance"
  shows "mergeIntoClosestGroup maxDistance point groups = groups @ [((latitude point, longitude point), 1)]"
proof (cases "fst (findClosest point groups 0 None maxDistance)")
  case None
  then show ?thesis by (rule merge_None)
next
  case (Some k)
  with findClosest_result [of maxDistance point groups]
  have "k < length groups" "dist_to point groups k < maxDistance"
    by (simp_all add: closest_upto_def)
  with assms show ?thesis by simp
qed

lemma merge_some_within:
  assumes "j < length groups" "dist_to point groups j < maxDistance"
  shows "\<exists>k<length groups. fst (findClosest point groups 0 None maxDistance) = Some k
           \<and> dist_to point groups k < maxDistance
           \<and> (\<forall>j<length groups. \<not> dist_to point groups j < dist_to point groups k)
           \<and> (\<forall>j<k. \<not> dist_to point groups j \<le> dist_to point groups k)"
proof (cases "fst (findClosest point groups 0 None maxDistance)")
  case None
  with findClosest_result [of maxDistance point groups]
  have "\<forall>j<length groups. \<not> dist_to point groups j < maxDistance"
    by (simp add: closest_upto_def)
  with assms show ?thesis by simp
next
  case (Some k)
  with findClosest_result [of maxDistance point groups]
  show ?thesis by (simp add: closest_upto_def)
qed

lemma groupCoordinates_single: "groupCoordinates [p] maxDistance = [((latitude p, longitude p), 1)]"
  by (simp add: groupCoordinates_def mergeIntoClosestGroup_def findClosest.simps)

lemma groupCoordinates_snoc:
  "groupCoordinates (coordinates @ [point]) maxDistance
   = mergeIntoClosestGroup maxDistance point (groupCoordinates coordinates maxDistance)"
  by (simp add: groupCoordinates_def)

subsection \<open>The haversine formula\<close>

lemma haversineDistance_same: "haversineDistance (Num x, Num y) (Num x, Num y) = Num 0"
  by (simp add: haversineDistance_def Math_PI_def Math_sin_def Math_cos_def Math_sqrt_def
      Math_atan2_def atan2_real_def plus_number_def minus_number_def times_number_def
      divide_number_def)


lemma museum_fields:
  "latitude (museum lat lon) = Num lat"
  "longitude (museum lat lon) = Num lon"
  "region (museum lat lon) = ''England''"
  by (simp_all add: museum_def)


















section \<open>Thresholds and ties\<close>

lemma number_less_is_le: "(a::number) < b \<Longrightarrow> a \<le> a"
  by (auto simp: less_number_def less_eq_number_def split: number.splits)

lemma merge_all_beyond:
  assumes "\<forall>j<length groups. maxDistance \<le> dist_to point groups j"
  shows "mergeIntoClosestGroup maxDistance point groups = groups @ [((latitude point, longitude point), 1)]"
proof (rule merge_none_within, intro allI impI)
  fix j assume "j < length groups"
  with assms have "maxDistance \<le> dist_to point groups j" by simp
  then show "\<not> dist_to point groups j < maxDistance" by (rule number_le_not_less)
qed

lemma findClosest_earliest:
  assumes k: "k < length groups" "dist_to point groups k < maxDistance"
    and least: "\<forall>j<length groups. \<not> dist_to point groups j < dist_to point groups k"
    and first: "\<forall>j<k. dist_to point groups j \<noteq> dist_to point groups k"
  shows "fst (findClosest point groups 0 None maxDistance) = Some k"
proof -
  let ?d = "dist_to point groups"
  from merge_some_within [OF k] obtain c where
    c: "c < length groups" "fst (findClosest point groups 0 None maxDistance) = Some c"
       "?d c < maxDistance" "\<forall>j<length groups. \<not> ?d j < ?d c" "\<forall>j<c. \<not> ?d j \<le> ?d c"
    by blast
  from least c(1) have nck: "\<not> ?d c < ?d k" by simp
  from c(4) k(1) have nkc: "\<not> ?d k < ?d c" by simp
  have eq: "?d k = ?d c \<and> ?d k \<le> ?d c"
    by (rule number_eq_or_le [OF k(2) c(3) nkc nck])
  have "\<not> k < c"
    using c(5) eq by auto
  moreover have "\<not> c < k"
    using first eq by auto
  ultimately have "c = k" by simp
  with c(2) show ?thesis by simp
qed

lemma findClosest_not_later:
  assumes "i < j" "j < length groups" "dist_to point groups i = dist_to point groups j"
  shows "fst (findClosest point groups 0 None maxDistance) \<noteq> Some j"
proof
  assume chosen: "fst (findClosest point groups 0 None maxDistance) = Some j"
  with findClosest_result [of maxDistance point groups]
  have near: "dist_to point groups j < maxDistance"
    and earlier: "\<forall>l<j. \<not> dist_to point groups l \<le> dist_to point groups j"
    by (simp_all add: closest_upto_def)
  from near have "dist_to point groups j \<le> dist_to point groups j" by (rule number_less_is_le)
  with earlier assms show False by auto
qed

text \<open>
  C10. A point whose distance to every existing centroid is at least the threshold starts
  a new cluster. A point goes into the cluster of index \<open>k\<close> whenever that centroid is
  strictly within the threshold, no centroid is nearer, and no earlier centroid is at the
  same distance: of several clusters at the same smallest distance the earliest is
  taken. A cluster that has an earlier cluster at the same distance is never chosen.
\<close>

theorem mergeIntoClosestGroup_ties:
  "((\<forall>j<length groups. maxDistance \<le> dist_to point groups j) \<longrightarrow>
      mergeIntoClosestGroup maxDistance point groups
      = groups @ [((latitude point, longitude point), 1)])
   \<and> (k < length groups \<and> dist_to point groups k < maxDistance
        \<and> (\<forall>j<length groups. \<not> dist_to point groups j < dist_to point groups k)
        \<and> (\<forall>j<k. dist_to point groups j \<noteq> dist_to point groups k) \<longrightarrow>
      mergeIntoClosestGroup maxDistance point groups = groups[k := merged (groups ! k) point])
   \<and> (i < j \<and> j < length groups \<and> dist_to point groups i = dist_to point groups j \<longrightarrow>
      fst (findClosest point groups 0 None maxDistance) \<noteq> Some j)"
proof (intro conjI impI)
  assume "\<forall>j<length groups. maxDistance \<le> dist_to point groups j"
  then show "mergeIntoClosestGroup maxDistance point groups
             = groups @ [((latitude point, longitude point), 1)]"
    by (rule merge_all_beyond)
next
  assume "k < length groups \<and> dist_to point groups k < maxDistance
        \<and> (\<forall>j<length groups. \<not> dist_to point groups j < dist_to point groups k)
        \<and> (\<forall>j<k. dist_to point groups j \<noteq> dist_to point groups k)"
  then have "fst (findClosest point groups 0 None maxDistance) = Some k"
    using findClosest_earliest by blast
  then show "mergeIntoClosestGroup maxDistance point groups = groups[k := merged (groups ! k) point]"
    by (rule merge_Some)
next
  assume "i < j \<and> j < length groups \<and> dist_to point groups i = dist_to point groups j"
  then show "fst (findClosest point groups 0 None maxDistance) \<noteq> Some j"
    using findClosest_not_later by blast
qed

lemma dist_twins: "dist_to origin twins 0 = Num 0" "dist_to origin twins (Suc 0) = Num 0"
  by (simp_all add: twins_def dist_to_def origin_def museum_def point_coords_def haversineDistance_same)

theorem mergeIntoClosestGroup_ties_witness:
  "mergeIntoClosestGroup (Num 0) origin twins = twins @ [((Num 0, Num 0), 1)]
   \<and> mergeIntoClosestGroup (Num 40) origin twins = [((Num 0, Num 0), 2), ((Num 0, Num 0), 1)]
   \<and> fst (findClosest origin twins 0 None (Num 40)) \<noteq> Some 1"
proof -
  have len: "length twins = 2" by (simp add: twins_def)
  have all: "\<forall>j<length twins. dist_to origin twins j = Num 0"
    using dist_twins by (auto simp: len less_Suc_eq numeral_2_eq_2)
  have "\<forall>j<length twins. Num 0 \<le> dist_to origin twins j"
    using all by (simp add: less_eq_number_def)
  with mergeIntoClosestGroup_ties [of twins "Num 0" origin]
  have one: "mergeIntoClosestGroup (Num 0) origin twins = twins @ [((Num 0, Num 0), 1)]"
    by (simp add: origin_def museum_def)
  have "0 < length twins \<and> dist_to origin twins 0 < Num 40
        \<and> (\<forall>j<length twins. \<not> dist_to origin twins j < dist_to origin twins 0)
        \<and> (\<forall>j<0. dist_to origin twins j \<noteq> dist_to origin twins 0)"
    using all by (simp add: len less_number_def)
  with mergeIntoClosestGroup_ties [of twins "Num 40" origin 0]
  have "mergeIntoClosestGroup (Num 40) origin twins = twins[0 := merged (twins ! 0) origin]"
    by blast
  moreover have "merged ((Num 0, Num 0), 1) origin = ((Num 0, Num 0), 2)"
    by (simp add: merged_def weighted_mean_def origin_def museum_def plus_number_def
        times_number_def divide_number_def)
  ultimately have two: "mergeIntoClosestGroup (Num 40) origin twins
      = [((Num 0, Num 0), 2), ((Num 0, Num 0), 1)]"
    by (simp add: twins_def)
  have "(0::nat) < 1 \<and> 1 < length twins \<and> dist_to origin twins 0 = dist_to origin twins 1"
    by (simp add: len dist_twins)
  with mergeIntoClosestGroup_ties [of twins "Num 40" origin 0 0 1]
  have three: "fst (findClosest origin twins 0 None (Num 40)) \<noteq> Some 1"
    by blast
  from one two three show ?thesis by simp
qed

section \<open>Points close to each other\<close>

lemma haversineDistance_across:
  "haversineDistance (Num 0, Num (- 180)) (Num 0, Num 180) = Num 0"
  "haversineDistance (Num 0, Num 180) (Num 0, Num (- 180)) = Num 0"
  by (simp_all add: haversineDistance_def Math_PI_def Math_sin_def Math_cos_def Math_sqrt_def
      Math_atan2_def atan2_real_def plus_number_def minus_number_def times_number_def
      divide_number_def)

lemma haversineDistance_half_turn:
  "haversineDistance (Num 0, Num 180) (Num 0, Num 0) = Num (6371 * pi)"
  by (simp add: haversineDistance_def Math_PI_def Math_sin_def Math_cos_def Math_sqrt_def
      Math_atan2_def atan2_real_def plus_number_def minus_number_def times_number_def
      divide_number_def)

lemma half_turn_far: "\<not> Num (6371 * pi) < Num 40"
proof -
  have "(40::real) < 6371 * 2" by simp
  also have "\<dots> \<le> 6371 * pi" using pi_ge_two by simp
  finally show ?thesis by (simp add: less_number_def)
qed








text \<open>
  The same happens with any number of further museums at longitude 180: all the points are
  at distance 0 from each other, and two clusters result. So for no number of points from
  three on does closeness of the points to each other give a single cluster.
\<close>

lemma dateline_more_clusters:
  "groupCoordinates (dateline @ replicate n (museum 0 180)) (Num 40)
   = [((Num 0, Num 0), 2), ((Num 0, Num 180), Suc n)]"
proof (induction n)
  case 0
  have first: "mergeIntoClosestGroup (Num 40) (museum 0 180) [] = [((Num 0, Num 180), 1)]"
    by (simp add: mergeIntoClosestGroup_def findClosest.simps museum_def)
  have second: "mergeIntoClosestGroup (Num 40) (museum 0 (- 180)) [((Num 0, Num 180), 1)]
                = [((Num 0, Num 0), 2)]"
    by (simp add: mergeIntoClosestGroup_def findClosest.simps museum_def point_coords_def
        haversineDistance_across less_number_def plus_number_def times_number_def
        divide_number_def)
  have third: "mergeIntoClosestGroup (Num 40) (museum 0 180) [((Num 0, Num 0), 2)]
               = [((Num 0, Num 0), 2), ((Num 0, Num 180), 1)]"
    using half_turn_far
    by (simp add: mergeIntoClosestGroup_def findClosest.simps museum_def point_coords_def
        haversineDistance_half_turn)
  show ?case
    using first second third by (simp add: groupCoordinates_def dateline_def)
next
  case (Suc n)
  let ?gs = "[((Num 0, Num 0), 2), ((Num 0, Num 180), Suc n)]"
  let ?p = "museum 0 180"
  have d0: "dist_to ?p ?gs 0 = Num (6371 * pi)"
    by (simp add: dist_to_def point_coords_def museum_fields haversineDistance_half_turn)
  have d1: "dist_to ?p ?gs (Suc 0) = Num 0"
    by (simp add: dist_to_def point_coords_def museum_fields haversineDistance_same)
  have "Suc 0 < length ?gs" "dist_to ?p ?gs (Suc 0) < Num 40"
    by (simp_all add: d1 less_number_def)
  from merge_some_within [OF this] obtain k where
    k: "k < length ?gs" "fst (findClosest ?p ?gs 0 None (Num 40)) = Some k"
       "dist_to ?p ?gs k < Num 40"
    by blast
  have "k \<noteq> 0"
  proof
    assume "k = 0"
    with k(3) d0 have "Num (6371 * pi) < Num 40" by simp
    with half_turn_far show False by simp
  qed
  with k(1) have "k = Suc 0" by auto
  with merge_Some [OF k(2)]
  have "mergeIntoClosestGroup (Num 40) ?p ?gs = ?gs[Suc 0 := merged (?gs ! Suc 0) ?p]"
    by simp
  moreover have "merged ((Num 0, Num 180), Suc n) ?p = ((Num 0, Num 180), Suc (Suc n))"
  proof -
    have "2 + real n \<noteq> 0" using of_nat_0_le_iff [of n] by linarith
    then have "(360 + 180 * real n) / (2 + real n) = 180"
      by (simp add: divide_eq_eq algebra_simps)
    then show ?thesis
      by (simp add: merged_def weighted_mean_def museum_fields plus_number_def
          times_number_def divide_number_def algebra_simps)
  qed
  ultimately have step: "mergeIntoClosestGroup (Num 40) ?p ?gs
      = [((Num 0, Num 0), 2), ((Num 0, Num 180), Suc (Suc n))]"
    by simp
  have "dateline @ replicate (Suc n) ?p = (dateline @ replicate n ?p) @ [?p]"
    by (simp add: replicate_append_same)
  then have "groupCoordinates (dateline @ replicate (Suc n) ?p) (Num 40)
      = mergeIntoClosestGroup (Num 40) ?p (groupCoordinates (dateline @ replicate n ?p) (Num 40))"
    by (simp only: groupCoordinates_snoc)
  with Suc.IH step show ?case by simp
qed

lemma dateline_more_within: "all_within (Num 40) (dateline @ replicate n (museum 0 180))"
proof -
  let ?east = "museum 0 180" and ?west = "museum 0 (- 180)"
  have pairs: "haversineDistance (point_coords ?east) (point_coords ?east) < Num 40"
    "haversineDistance (point_coords ?east) (point_coords ?west) < Num 40"
    "haversineDistance (point_coords ?west) (point_coords ?east) < Num 40"
    "haversineDistance (point_coords ?west) (point_coords ?west) < Num 40"
    by (simp_all add: point_coords_def museum_fields haversineDistance_same
        haversineDistance_across less_number_def)
  have mem: "p = ?east \<or> p = ?west" if "p \<in> set (dateline @ replicate n ?east)" for p
    using that by (auto simp: dateline_def)
  show ?thesis
    unfolding all_within_def list_all_iff
  proof (intro ballI)
    fix p q
    assume "p \<in> set (dateline @ replicate n ?east)" "q \<in> set (dateline @ replicate n ?east)"
    then have "p = ?east \<or> p = ?west" "q = ?east \<or> q = ?west" by (simp_all only: mem)
    with pairs show "haversineDistance (point_coords p) (point_coords q) < Num 40" by blast
  qed
qed





section \<open>Toggling a region\<close>

lemma render_points_frame:
  "regions (fst (render_points env d s)) = regions s"
  "selectedRegions (fst (render_points env d s)) = selectedRegions s"
  "data (fst (render_points env d s)) = data s"
  "filteredData (fst (render_points env d s)) = filteredData s"
  "currentValue (fst (render_points env d s)) = currentValue s"
  "groupRadius (fst (render_points env d s)) = groupRadius s"
  "maxRadius (fst (render_points env d s)) = maxRadius s"
  "pointScale (fst (render_points env d s)) = pointScale s"
  "lineChart_data (fst (render_points env d s)) = lineChart_data s"
  "console (fst (render_points env d s)) = console s"
  by (simp_all add: render_points_def Let_def)

lemma lineChart_render_frame:
  "regions (fst (lineChart_render env r s)) = regions s"
  "selectedRegions (fst (lineChart_render env r s)) = selectedRegions s"
  "data (fst (lineChart_render env r s)) = data s"
  "filteredData (fst (lineChart_render env r s)) = filteredData s"
  "currentValue (fst (lineChart_render env r s)) = currentValue s"
  "groupRadius (fst (lineChart_render env r s)) = groupRadius s"
  "maxRadius (fst (lineChart_render env r s)) = maxRadius s"
  "pointScale (fst (lineChart_render env r s)) = pointScale s"
  "circles (fst (lineChart_render env r s)) = circles s"
  "console (fst (lineChart_render env r s)) = console s"
  by (simp_all add: lineChart_render_def)

lemma catch_log_frame:
  "regions (catch_log r) = regions (fst r)"
  "selectedRegions (catch_log r) = selectedRegions (fst r)"
  "data (catch_log r) = data (fst r)"
  "filteredData (catch_log r) = filteredData (fst r)"
  "currentValue (catch_log r) = currentValue (fst r)"
  "groupRadius (catch_log r) = groupRadius (fst r)"
  "maxRadius (catch_log r) = maxRadius (fst r)"
  "pointScale (catch_log r) = pointScale (fst r)"
  "circles (catch_log r) = circles (fst r)"
  "lineChart_data (catch_log r) = lineChart_data (fst r)"
  by (simp_all add: catch_log_def split: prod.splits option.splits)

lemma filterOnDate_try_frame:
  "regions (fst (filterOnDate_try env date s)) = regions s"
  "selectedRegions (fst (filterOnDate_try env date s)) = selectedRegions s"
  "data (fst (filterOnDate_try env date s)) = data s"
  "filteredData (fst (filterOnDate_try env date s)) = filteredData s"
  "currentValue (fst (filterOnDate_try env date s)) = currentValue s"
  "groupRadius (fst (filterOnDate_try env date s)) = groupRadius s"
  "maxRadius (fst (filterOnDate_try env date s)) = maxRadius s"
  "pointScale (fst (filterOnDate_try env date s)) = pointScale s"
  "console (fst (filterOnDate_try env date s)) = console s"
  by (simp_all add: filterOnDate_try_def updatePoints_def render_points_def lineChart_render_def
      Let_def split: option.splits)

lemma filterOnDate_frame:
  "regions (filterOnDate env date s) = regions s"
  "selectedRegions (filterOnDate env date s) = selectedRegions s"
  "data (filterOnDate env date s) = data s"
  "filteredData (filterOnDate env date s) = filteredData s"
  "currentValue (filterOnDate env date s) = currentValue s"
  "groupRadius (filterOnDate env date s) = groupRadius s"
  "maxRadius (filterOnDate env date s) = maxRadius s"
  "pointScale (filterOnDate env date s) = pointScale s"
  by (simp_all add: filterOnDate_def catch_log_frame filterOnDate_try_frame)

lemma filterOnRegion_frame:
  "regions (filterOnRegion env sel s) = regions s"
  "selectedRegions (filterOnRegion env sel s) = selectedRegions s"
  "data (filterOnRegion env sel s) = data s"
  "currentValue (filterOnRegion env sel s) = currentValue s"
  "groupRadius (filterOnRegion env sel s) = groupRadius s"
  "maxRadius (filterOnRegion env sel s) = maxRadius s"
  "pointScale (filterOnRegion env sel s) = pointScale s"
  by (simp_all add: filterOnRegion_def filterOnRegion_try_def catch_log_frame
      mapRegionsFilterOnDate_def filterOnDate_frame Let_def split: option.splits)

lemma handle_selection:
  "regions (handle env s e) = (case e of RegionClicked i \<Rightarrow> regions (toggleRegion i s) | _ \<Rightarrow> regions s)"
  "selectedRegions (handle env s e)
   = (case e of RegionClicked i \<Rightarrow> selectedRegions (toggleRegion i s) | _ \<Rightarrow> selectedRegions s)"
  by (cases e; simp add: region_click_def slider_drag_def slider_tick_def sliderCallback_def
      mapRegionsFilterOnDate_def filterOnRegion_frame filterOnDate_frame Let_def)+

lemma baseMap_ok: "distinct names \<Longrightarrow> selection_ok (baseMap names s)"
  by (simp add: selection_ok_def baseMap_def flag_agrees_def comp_def)

lemma toggleRegion_ok:
  assumes "selection_ok s"
  shows "selection_ok (toggleRegion i s)"
proof (cases "i < length (regions s)")
  case False
  with assms show ?thesis by (simp add: toggleRegion_def)
next
  case True
  from assms have d: "distinct (map fst (regions s))"
    and ag: "\<forall>j<length (regions s). flag_agrees s j"
    by (simp_all add: selection_ok_def)
  have names: "map fst ((regions s)[i := (fst (regions s ! i), v)]) = map fst (regions s)" for v
    using True by (simp add: map_update list_update_same_conv)
  have other: "fst (regions s ! j) \<noteq> fst (regions s ! i)" if "j < length (regions s)" "j \<noteq> i" for j
    using d True that by (metis distinct_conv_nth length_map nth_map)
  show ?thesis
    unfolding selection_ok_def
  proof (intro conjI allI impI)
    show "distinct (map fst (regions (toggleRegion i s)))"
      using True d by (simp add: toggleRegion_def Let_def names)
  next
    fix j assume "j < length (regions (toggleRegion i s))"
    then have j: "j < length (regions s)" using True by (simp add: toggleRegion_def Let_def)
    show "flag_agrees (toggleRegion i s) j"
    proof (cases "j = i")
      case True
      with \<open>i < length (regions s)\<close> ag show ?thesis
        by (auto simp: toggleRegion_def Let_def flag_agrees_def)
    next
      case False
      with other [OF j] ag j \<open>i < length (regions s)\<close> show ?thesis
        by (auto simp: toggleRegion_def Let_def flag_agrees_def)
    qed
  qed
qed

lemma handle_ok: "selection_ok s \<Longrightarrow> selection_ok (handle env s e)"
proof -
  assume ok: "selection_ok s"
  have "selection_ok (handle env s e) = selection_ok (case e of RegionClicked i \<Rightarrow> toggleRegion i s | _ \<Rightarrow> s)"
    by (cases e) (simp_all add: selection_ok_def flag_agrees_def handle_selection del: handle.simps)
  with ok toggleRegion_ok show ?thesis by (cases e) simp_all
qed

lemma run_events_ok: "selection_ok s \<Longrightarrow> selection_ok (run_events env s es)"
  unfolding run_events_def by (induction es arbitrary: s) (simp_all add: handle_ok)

lemma twice_when_agrees:
  assumes "i < length (regions s)" "flag_agrees s i"
  shows "selectedRegions (toggleRegion i (toggleRegion i s)) = selectedRegions s"
  using assms by (auto simp: toggleRegion_def Let_def flag_agrees_def)

text \<open>
  C8, amended. Toggling a region path twice restores the set of selected regions whenever
  the attribute of the path agrees with the membership of its name in the set; that is
  so for every path in every state reached by clicks and slider moves after \<open>baseMap\<close>
  when the region names are pairwise distinct.
\<close>

theorem toggleRegion_twice:
  "(i < length (regions s) \<and> flag_agrees s i \<longrightarrow>
      selectedRegions (toggleRegion i (toggleRegion i s)) = selectedRegions s)
   \<and> (distinct names \<and> s = run_events env (baseMap names s0) es \<longrightarrow>
      selectedRegions (toggleRegion i (toggleRegion i s)) = selectedRegions s)"
proof (intro conjI impI)
  assume "i < length (regions s) \<and> flag_agrees s i"
  then show "selectedRegions (toggleRegion i (toggleRegion i s)) = selectedRegions s"
    by (simp add: twice_when_agrees)
next
  assume a: "distinct names \<and> s = run_events env (baseMap names s0) es"
  then have ok: "selection_ok s"
    by (simp add: baseMap_ok run_events_ok)
  show "selectedRegions (toggleRegion i (toggleRegion i s)) = selectedRegions s"
  proof (cases "i < length (regions s)")
    case True
    with ok have "flag_agrees s i" by (simp add: selection_ok_def)
    with True show ?thesis by (rule twice_when_agrees)
  next
    case False
    then show ?thesis by (simp add: toggleRegion_def)
  qed
qed

text \<open>
  C8, as stated, fails. The toggle follows the \<^verbatim>\<open>data-highlighted\<close> attribute of the
  clicked path, not the membership of its name in the set. With two paths of the same
  name, after one click on the first the set is empty; two clicks on the second then
  leave the name in the set.
\<close>

theorem toggleRegion_twice_counterexample:
  "selectedRegions (toggleRegion 1 (toggleRegion 1
      (toggleRegion 0 (baseMap [''England'', ''England''] (new_page (Num 1990))))))
   \<noteq> selectedRegions (toggleRegion 0 (baseMap [''England'', ''England''] (new_page (Num 1990))))"
  by (simp add: toggleRegion_def baseMap_def new_page_def Let_def)

theorem toggleRegion_twice_witness:
  "selectedRegions (toggleRegion 1 (toggleRegion 1 (baseMap uk (new_page (Num 1990))))) = set uk
   \<and> selectedRegions (toggleRegion 1 (toggleRegion 1
        (run_events sound_renderer (baseMap uk (new_page (Num 1990))) [RegionClicked 0])))
     = {''England'', ''Wales'', ''Northern Ireland''}"
proof -
  let ?s = "baseMap uk (new_page (Num 1990))"
  let ?t = "run_events sound_renderer ?s [RegionClicked 0]"
  have "1 < length (regions ?s) \<and> flag_agrees ?s 1"
    by (simp add: baseMap_def uk_def flag_agrees_def)
  with toggleRegion_twice [where i = 1 and s = ?s]
  have "selectedRegions (toggleRegion 1 (toggleRegion 1 ?s)) = selectedRegions ?s"
    by blast
  then have one: "selectedRegions (toggleRegion 1 (toggleRegion 1 ?s)) = set uk"
    by (simp add: baseMap_def)
  have "distinct uk \<and> ?t = run_events sound_renderer (baseMap uk (new_page (Num 1990))) [RegionClicked 0]"
    by (simp add: uk_def)
  with toggleRegion_twice [where i = 1 and s = ?t and names = uk and env = sound_renderer
      and ?s0.0 = "new_page (Num 1990)" and es = "[RegionClicked 0]"]
  have "selectedRegions (toggleRegion 1 (toggleRegion 1 ?t)) = selectedRegions ?t"
    by blast
  moreover have "selectedRegions ?t = {''England'', ''Wales'', ''Northern Ireland''}"
    by (simp add: run_events_def handle_selection toggleRegion_def baseMap_def uk_def Let_def
        del: handle.simps)
  ultimately show ?thesis using one by simp
qed

section \<open>The date filter on the stored subset\<close>

lemma filterOnDate_try_ok:
  assumes "filteredData s = Some fd"
    and "\<not> filter_throws env fd"
    and "\<not> map_throws env (groupCoordinates (filter (open_at date) fd) (groupRadius s))"
    and "\<not> chart_throws env (filterLineChartData fd)"
  shows "filterOnDate_try env date s
         = (s\<lparr>circles := groupCoordinates (filter (open_at date) fd) (groupRadius s),
               lineChart_data := Some (filterLineChartData fd)\<rparr>, None)"
  using assms
  by (simp add: filterOnDate_try_def updatePoints_def render_points_def lineChart_render_def Let_def)

lemma filterOnDate_ok:
  assumes "filteredData s = Some fd" "quiet env"
  shows "filterOnDate env date s
         = s\<lparr>circles := groupCoordinates (filter (open_at date) fd) (groupRadius s),
              lineChart_data := Some (filterLineChartData fd)\<rparr>"
  using assms by (simp add: filterOnDate_def filterOnDate_try_ok quiet_def catch_log_def)

lemma filterOnDate_try_throws:
  assumes "filterOnDate_try env date s = (s1, Some e)"
  shows "console s1 = console s" "data s1 = data s" "filteredData s1 = filteredData s"
  using filterOnDate_try_frame [of env date s] assms by simp_all

lemma filterOnRegion_try_throws:
  assumes "filterOnRegion_try env selected s = (s1, Some e)"
  shows "s1 = s"
  using assms by (simp add: filterOnRegion_try_def Let_def split: option.splits if_splits)

section \<open>The date filter\<close>

lemma quiet_sound: "quiet sound_renderer"
  by (simp add: quiet_def sound_renderer_def)

lemma one_museum_page_fields:
  "data one_museum_page = Some [museum 51 0]"
  "filteredData one_museum_page = Some [museum 51 0]"
  "groupRadius one_museum_page = Num 40"
  "maxRadius one_museum_page = Num 15"
  "currentValue one_museum_page = Num 1990"
  "circles one_museum_page = [((Num 51, Num 0), 1)]"
  "selectedRegions one_museum_page = set uk"
  "regions one_museum_page = map (\<lambda>name. (name, ''true'')) uk"
  by (simp_all add: one_museum_page_def renderGroupedPoints_def render_points_def Let_def
      sound_renderer_def baseMap_def new_page_def groupCoordinates_single museum_def)

lemma open_at_iff: "open_at date d = known_open date d"
  by (cases date; cases "year_opened_low d"; cases "year_closed_low d")
    (auto simp: open_at_def known_open_def isNaN_def less_number_def less_eq_number_def)

text \<open>
  C4, amended. The date filter keeps a point exactly if its low opening year is at most
  the reference date and its low closing year is above the date or \<open>NaN\<close>; these points
  are the ones clustered and drawn. A point with a low opening year of at most 2000 and a
  closing year \<open>NaN\<close> is kept at every reference date from 2000 on.
\<close>

theorem open_at_known_open:
  "open_at date d = known_open date d
   \<and> (filteredData s = Some fd \<and> quiet env \<longrightarrow>
        circles (filterOnDate env date s)
        = groupCoordinates (filter (known_open date) fd) (groupRadius s))
   \<and> (year_opened_low d = Num y \<and> y \<le> 2000 \<and> year_closed_low d = NaN \<and> 2000 \<le> D \<longrightarrow>
        open_at (Num D) d)"
proof (intro conjI impI)
  show "open_at date d = known_open date d" by (rule open_at_iff)
next
  assume "filteredData s = Some fd \<and> quiet env"
  then have "filterOnDate env date s
         = s\<lparr>circles := groupCoordinates (filter (open_at date) fd) (groupRadius s),
              lineChart_data := Some (filterLineChartData fd)\<rparr>"
    by (simp add: filterOnDate_ok)
  moreover have "filter (open_at date) fd = filter (known_open date) fd"
    by (simp add: open_at_iff cong: filter_cong)
  ultimately show "circles (filterOnDate env date s)
        = groupCoordinates (filter (known_open date) fd) (groupRadius s)"
    by simp
next
  assume "year_opened_low d = Num y \<and> y \<le> 2000 \<and> year_closed_low d = NaN \<and> 2000 \<le> D"
  then show "open_at (Num D) d"
    by (simp add: open_at_iff known_open_def)
qed

theorem open_at_known_open_witness:
  "circles (filterOnDate sound_renderer (Num 2000) one_museum_page) = [((Num 51, Num 0), 1)]
   \<and> open_at (Num 2024) (museum_years (Num 1990) (Num 2000) NaN)"
proof -
  have "filteredData one_museum_page = Some [museum 51 0] \<and> quiet sound_renderer"
    by (simp add: one_museum_page_fields quiet_sound)
  with open_at_known_open [where s = one_museum_page and fd = "[museum 51 0]"
      and env = sound_renderer and date = "Num 2000"]
  have "circles (filterOnDate sound_renderer (Num 2000) one_museum_page)
        = groupCoordinates (filter (known_open (Num 2000)) [museum 51 0]) (groupRadius one_museum_page)"
    by blast
  then have one: "circles (filterOnDate sound_renderer (Num 2000) one_museum_page)
      = [((Num 51, Num 0), 1)]"
    by (simp add: known_open_def museum_def groupCoordinates_single)
  have "year_opened_low (museum_years (Num 1990) (Num 2000) NaN) = Num 1990 \<and> (1990::real) \<le> 2000
      \<and> year_closed_low (museum_years (Num 1990) (Num 2000) NaN) = NaN \<and> (2000::real) \<le> 2024"
    by (simp add: museum_years_def)
  with open_at_known_open [where d = "museum_years (Num 1990) (Num 2000) NaN" and y = 1990
      and D = 2024]
  have "open_at (Num 2024) (museum_years (Num 1990) (Num 2000) NaN)"
    by blast
  with one show ?thesis by simp
qed

text \<open>
  C4, as stated, fails. The filter reads the low opening year, index 3 of the row. A row
  with high opening year 2000, low opening year 2010 and no closing year is left out at
  the reference date 2005.
\<close>

theorem open_at_opened_high_counterexample:
  "year_opened_high (museum_years (Num 2010) (Num 2000) NaN) = Num 2000
   \<and> isNaN (year_closed_low (museum_years (Num 2010) (Num 2000) NaN))
   \<and> Num 2000 \<le> Num 2005
   \<and> \<not> open_at (Num 2005) (museum_years (Num 2010) (Num 2000) NaN)
   \<and> filter (open_at (Num 2005)) [museum_years (Num 2010) (Num 2000) NaN] = []"
  by (simp add: museum_years_def open_at_def isNaN_def less_eq_number_def less_number_def)

section \<open>The filter of the line chart\<close>

lemma loose_eq_Num: "loose_eq a (Num x) = (a = Num x)"
  by (cases a) (simp_all add: loose_eq_def)

lemma filterLineChartData_eq:
  "filterLineChartData dat = calculateRollup (filter (\<lambda>d. \<not> artifact d) dat)"
  by (simp add: filterLineChartData_def artifact_def loose_eq_Num)

lemma groupCoordinates_count:
  "totalNumberOfPoints (groupCoordinates coordinates maxDistance) = length coordinates"
  using foldl_merge_total [of maxDistance "[]" coordinates]
  by (simp add: groupCoordinates_def totalNumberOfPoints_def)

lemma artifact_page_fields:
  "filteredData artifact_page = Some [museum_years (Num 1945) (Num 2017) NaN]"
  "groupRadius artifact_page = Num 40"
  by (simp_all add: artifact_page_def renderGroupedPoints_def render_points_def Let_def
      sound_renderer_def)

text \<open>
  C5, amended. The filter of the line chart removes exactly the points whose low opening
  year is 1945 or 1960 and whose high opening year is 2017, and the series are rolled up
  from the rest. The points clustered on the map are those of the date filter alone:
  their number is the number of points the date filter keeps.
\<close>

theorem filterLineChartData_artifacts:
  "filterLineChartData dat = calculateRollup (filter (\<lambda>d. \<not> artifact d) dat)
   \<and> (filteredData s = Some fd \<and> quiet env \<longrightarrow>
        lineChart_data (filterOnDate env date s)
        = Some (calculateRollup (filter (\<lambda>d. \<not> artifact d) fd))
        \<and> circles (filterOnDate env date s)
          = groupCoordinates (filter (open_at date) fd) (groupRadius s)
        \<and> totalNumberOfPoints (circles (filterOnDate env date s))
          = length (filter (open_at date) fd))"
proof (intro conjI impI)
  show "filterLineChartData dat = calculateRollup (filter (\<lambda>d. \<not> artifact d) dat)"
    by (rule filterLineChartData_eq)
next
  assume a: "filteredData s = Some fd \<and> quiet env"
  then have run: "filterOnDate env date s
         = s\<lparr>circles := groupCoordinates (filter (open_at date) fd) (groupRadius s),
              lineChart_data := Some (filterLineChartData fd)\<rparr>"
    by (simp add: filterOnDate_ok)
  show "lineChart_data (filterOnDate env date s)
        = Some (calculateRollup (filter (\<lambda>d. \<not> artifact d) fd))"
    by (simp add: run filterLineChartData_eq)
  show "circles (filterOnDate env date s)
        = groupCoordinates (filter (open_at date) fd) (groupRadius s)"
    by (simp add: run)
  show "totalNumberOfPoints (circles (filterOnDate env date s))
        = length (filter (open_at date) fd)"
    by (simp add: run groupCoordinates_count)
qed

theorem filterLineChartData_artifacts_witness:
  "lineChart_data (filterOnDate sound_renderer (Num 2000) artifact_page) = Some [[], []]
   \<and> circles (filterOnDate sound_renderer (Num 2000) artifact_page) = [((Num 51, Num 0), 1)]
   \<and> totalNumberOfPoints (circles (filterOnDate sound_renderer (Num 2000) artifact_page)) = 1"
proof -
  let ?p = "museum_years (Num 1945) (Num 2017) NaN"
  have "filteredData artifact_page = Some [?p] \<and> quiet sound_renderer"
    by (simp add: artifact_page_fields quiet_sound)
  with filterLineChartData_artifacts [where s = artifact_page and fd = "[?p]"
      and env = sound_renderer and date = "Num 2000"]
  have "lineChart_data (filterOnDate sound_renderer (Num 2000) artifact_page)
        = Some (calculateRollup (filter (\<lambda>d. \<not> artifact d) [?p]))"
    and "circles (filterOnDate sound_renderer (Num 2000) artifact_page)
          = groupCoordinates (filter (open_at (Num 2000)) [?p]) (groupRadius artifact_page)"
    and "totalNumberOfPoints (circles (filterOnDate sound_renderer (Num 2000) artifact_page))
          = length (filter (open_at (Num 2000)) [?p])"
    by blast+
  moreover have "artifact ?p" by (simp add: artifact_def museum_years_def)
  moreover have "open_at (Num 2000) ?p"
    by (simp add: open_at_def museum_years_def isNaN_def less_eq_number_def)
  moreover have "calculateRollup [] = [[], []]"
    by (simp add: calculateRollup_def rollups_length_def sort_ascending_def)
  ultimately show ?thesis
    by (simp add: groupCoordinates_single museum_years_def)
qed

text \<open>
  C5, as stated, fails. The filter compares the high opening year, index 4 of the row,
  with 2017, not a closing year. A museum opened in 1945 and closed in 2017 stays in both
  series; a museum with opening years 1945 to 2017 and no closing year is removed.
\<close>

theorem filterLineChartData_closed_year_counterexample:
  "filterLineChartData [museum_years (Num 1945) (Num 1945) (Num 2017)]
     = [[(Num 1945, 1)], [(Num 2017, 1)]]
   \<and> filterLineChartData [museum_years (Num 1945) (Num 2017) NaN] = [[], []]"
  by (simp add: filterLineChartData_def calculateRollup_def rollups_length_def sort_ascending_def
      museum_years_def loose_eq_def isNaN_def)

section \<open>The chain of filters\<close>

lemma toggleRegion_frame:
  "data (toggleRegion i s) = data s"
  "filteredData (toggleRegion i s) = filteredData s"
  "currentValue (toggleRegion i s) = currentValue s"
  "groupRadius (toggleRegion i s) = groupRadius s"
  "circles (toggleRegion i s) = circles s"
  "lineChart_data (toggleRegion i s) = lineChart_data s"
  "pointScale (toggleRegion i s) = pointScale s"
  "maxRadius (toggleRegion i s) = maxRadius s"
  by (simp_all add: toggleRegion_def Let_def)

lemma region_click_ok:
  assumes "data s = Some full" "quiet env"
  shows "region_click env i s
         = (toggleRegion i s)
             \<lparr>filteredData := Some (filter (\<lambda>d. region d \<in> selectedRegions (toggleRegion i s)) full),
              circles := groupCoordinates
                 (filter (open_at (currentValue s))
                    (filter (\<lambda>d. region d \<in> selectedRegions (toggleRegion i s)) full))
                 (groupRadius s),
              lineChart_data := Some (filterLineChartData
                 (filter (\<lambda>d. region d \<in> selectedRegions (toggleRegion i s)) full))\<rparr>"
proof -
  from assms have "\<not> filter_throws env full" by (simp add: quiet_def)
  with assms show ?thesis
    by (simp add: region_click_def filterOnRegion_def filterOnRegion_try_def catch_log_def
        mapRegionsFilterOnDate_def filterOnDate_ok toggleRegion_frame Let_def)
qed

lemma sliderCallback_ok:
  assumes "filteredData s = Some fd" "quiet env"
  shows "sliderCallback env s
         = s\<lparr>circles := groupCoordinates (filter (open_at (currentValue s)) fd) (groupRadius s),
              lineChart_data := Some (filterLineChartData fd)\<rparr>"
  using assms by (simp add: sliderCallback_def mapRegionsFilterOnDate_def filterOnDate_ok)

text \<open>
  C3, amended. When nothing throws, a click on a region recomputes the region-filtered
  subset from the full dataset with the selection as toggled, stores it, and applies the
  date filter at the current value of the slider to it. A move of the slider leaves the
  dataset and the stored subset as they are and applies the date filter to the stored
  subset: a drag at the value dragged to, a step of the animation at the value the
  slider held before the step. In each case the result of the date filter is clustered
  for the map, and the line chart receives the series of the region-filtered subset.
\<close>

theorem filter_chain:
  "(data s = Some full \<and> quiet env \<and> s' = region_click env i s
      \<and> sub = filter (\<lambda>d. region d \<in> selectedRegions (toggleRegion i s)) full \<longrightarrow>
        data s' = Some full \<and> filteredData s' = Some sub
        \<and> circles s' = groupCoordinates (filter (open_at (currentValue s)) sub) (groupRadius s)
        \<and> lineChart_data s' = Some (filterLineChartData sub))
   \<and> (filteredData s = Some fd \<and> quiet env \<and> s' = slider_drag env v s \<longrightarrow>
        data s' = data s \<and> filteredData s' = Some fd \<and> currentValue s' = v
        \<and> circles s' = groupCoordinates (filter (open_at v) fd) (groupRadius s)
        \<and> lineChart_data s' = Some (filterLineChartData fd))
   \<and> (filteredData s = Some fd \<and> quiet env \<and> s' = slider_tick env v s \<longrightarrow>
        data s' = data s \<and> filteredData s' = Some fd \<and> currentValue s' = v
        \<and> circles s' = groupCoordinates (filter (open_at (currentValue s)) fd) (groupRadius s)
        \<and> lineChart_data s' = Some (filterLineChartData fd))"
proof (intro conjI impI)
  assume a: "data s = Some full \<and> quiet env \<and> s' = region_click env i s
      \<and> sub = filter (\<lambda>d. region d \<in> selectedRegions (toggleRegion i s)) full"
  then have run: "s' = (toggleRegion i s)
       \<lparr>filteredData := Some sub,
        circles := groupCoordinates (filter (open_at (currentValue s)) sub) (groupRadius s),
        lineChart_data := Some (filterLineChartData sub)\<rparr>"
    by (simp add: region_click_ok)
  from a have full: "data s = Some full" by simp
  show "data s' = Some full" by (simp add: run toggleRegion_frame full)
  show "filteredData s' = Some sub" by (simp add: run)
  show "circles s' = groupCoordinates (filter (open_at (currentValue s)) sub) (groupRadius s)"
    by (simp add: run)
  show "lineChart_data s' = Some (filterLineChartData sub)" by (simp add: run)
next
  assume a: "filteredData s = Some fd \<and> quiet env \<and> s' = slider_drag env v s"
  then have run: "s' = s\<lparr>currentValue := v,
        circles := groupCoordinates (filter (open_at v) fd) (groupRadius s),
        lineChart_data := Some (filterLineChartData fd)\<rparr>"
    by (simp add: slider_drag_def sliderCallback_ok)
  from a have fd: "filteredData s = Some fd" by simp
  show "data s' = data s" by (simp add: run)
  show "filteredData s' = Some fd" by (simp add: run fd)
  show "currentValue s' = v" by (simp add: run)
  show "circles s' = groupCoordinates (filter (open_at v) fd) (groupRadius s)" by (simp add: run)
  show "lineChart_data s' = Some (filterLineChartData fd)" by (simp add: run)
next
  assume a: "filteredData s = Some fd \<and> quiet env \<and> s' = slider_tick env v s"
  then have run: "s' = s\<lparr>circles := groupCoordinates (filter (open_at (currentValue s)) fd) (groupRadius s),
        lineChart_data := Some (filterLineChartData fd), currentValue := v\<rparr>"
    by (simp add: slider_tick_def sliderCallback_ok)
  from a have fd: "filteredData s = Some fd" by simp
  show "data s' = data s" by (simp add: run)
  show "filteredData s' = Some fd" by (simp add: run fd)
  show "currentValue s' = v" by (simp add: run)
  show "circles s' = groupCoordinates (filter (open_at (currentValue s)) fd) (groupRadius s)"
    by (simp add: run)
  show "lineChart_data s' = Some (filterLineChartData fd)" by (simp add: run)
qed

lemma series_one_museum: "filterLineChartData [museum 51 0] = [[(Num 1990, 1)], []]"
  by (simp add: filterLineChartData_def calculateRollup_def rollups_length_def sort_ascending_def
      museum_def loose_eq_def isNaN_def)

lemma series_none: "filterLineChartData [] = [[], []]"
  by (simp add: filterLineChartData_def calculateRollup_def rollups_length_def sort_ascending_def)

lemma open_at_museum:
  "open_at (Num D) (museum lat lon) = (1990 \<le> D)"
  by (simp add: open_at_def museum_def isNaN_def less_eq_number_def)

theorem filter_chain_witness:
  "filteredData (region_click sound_renderer 1 one_museum_page) = Some []
   \<and> circles (region_click sound_renderer 1 one_museum_page) = []
   \<and> lineChart_data (region_click sound_renderer 1 one_museum_page) = Some [[], []]
   \<and> circles (slider_drag sound_renderer (Num 2000) one_museum_page) = [((Num 51, Num 0), 1)]
   \<and> lineChart_data (slider_drag sound_renderer (Num 2000) one_museum_page)
     = Some [[(Num 1990, 1)], []]
   \<and> circles (slider_tick sound_renderer (Num 2000) one_museum_page) = [((Num 51, Num 0), 1)]
   \<and> currentValue (slider_tick sound_renderer (Num 2000) one_museum_page) = Num 2000"
proof -
  let ?s = one_museum_page
  let ?sub = "filter (\<lambda>d. region d \<in> selectedRegions (toggleRegion 1 ?s)) [museum 51 0]"
  have sub: "?sub = []"
    by (simp add: toggleRegion_def one_museum_page_fields uk_def Let_def museum_fields)
  have "data ?s = Some [museum 51 0] \<and> quiet sound_renderer
      \<and> region_click sound_renderer 1 ?s = region_click sound_renderer 1 ?s \<and> ?sub = ?sub"
    by (simp add: one_museum_page_fields quiet_sound)
  with filter_chain [where s = ?s and full = "[museum 51 0]" and env = sound_renderer
      and s' = "region_click sound_renderer 1 ?s" and i = 1 and sub = ?sub]
  have "filteredData (region_click sound_renderer 1 ?s) = Some ?sub"
    and "circles (region_click sound_renderer 1 ?s)
         = groupCoordinates (filter (open_at (currentValue ?s)) ?sub) (groupRadius ?s)"
    and "lineChart_data (region_click sound_renderer 1 ?s) = Some (filterLineChartData ?sub)"
    by blast+
  then have click: "filteredData (region_click sound_renderer 1 ?s) = Some []"
    "circles (region_click sound_renderer 1 ?s) = []"
    "lineChart_data (region_click sound_renderer 1 ?s) = Some [[], []]"
    unfolding sub by (simp_all add: series_none groupCoordinates_def)
  have "filteredData ?s = Some [museum 51 0] \<and> quiet sound_renderer
      \<and> slider_drag sound_renderer (Num 2000) ?s = slider_drag sound_renderer (Num 2000) ?s"
    by (simp add: one_museum_page_fields quiet_sound)
  with filter_chain [where s = ?s and fd = "[museum 51 0]" and env = sound_renderer
      and s' = "slider_drag sound_renderer (Num 2000) ?s" and v = "Num 2000"]
  have "circles (slider_drag sound_renderer (Num 2000) ?s)
        = groupCoordinates (filter (open_at (Num 2000)) [museum 51 0]) (groupRadius ?s)"
    and "lineChart_data (slider_drag sound_renderer (Num 2000) ?s)
        = Some (filterLineChartData [museum 51 0])"
    by blast+
  then have drag: "circles (slider_drag sound_renderer (Num 2000) ?s) = [((Num 51, Num 0), 1)]"
    "lineChart_data (slider_drag sound_renderer (Num 2000) ?s) = Some [[(Num 1990, 1)], []]"
    by (simp_all add: open_at_museum series_one_museum groupCoordinates_single museum_fields)
  have "filteredData ?s = Some [museum 51 0] \<and> quiet sound_renderer
      \<and> slider_tick sound_renderer (Num 2000) ?s = slider_tick sound_renderer (Num 2000) ?s"
    by (simp add: one_museum_page_fields quiet_sound)
  with filter_chain [where s = ?s and fd = "[museum 51 0]" and env = sound_renderer
      and s' = "slider_tick sound_renderer (Num 2000) ?s" and v = "Num 2000"]
  have "circles (slider_tick sound_renderer (Num 2000) ?s)
        = groupCoordinates (filter (open_at (currentValue ?s)) [museum 51 0]) (groupRadius ?s)"
    and "currentValue (slider_tick sound_renderer (Num 2000) ?s) = Num 2000"
    by blast+
  then have tick: "circles (slider_tick sound_renderer (Num 2000) ?s) = [((Num 51, Num 0), 1)]"
    "currentValue (slider_tick sound_renderer (Num 2000) ?s) = Num 2000"
    by (simp_all add: one_museum_page_fields open_at_museum groupCoordinates_single museum_fields)
  from click drag tick show ?thesis by simp
qed

text \<open>
  C3, as stated, fails in its last part. After the slider is dragged to 1980 the date
  filter leaves no point of a museum opened in 1990, and no circle is drawn; the line
  chart still receives the series of that museum, rolled up from the region-filtered
  subset and not from the result of the date filter.
\<close>

theorem filter_chain_series_counterexample:
  "circles (slider_drag sound_renderer (Num 1980) one_museum_page) = []
   \<and> lineChart_data (slider_drag sound_renderer (Num 1980) one_museum_page)
     = Some [[(Num 1990, 1)], []]
   \<and> filterLineChartData (filter (open_at (Num 1980)) [museum 51 0]) = [[], []]"
proof -
  have "slider_drag sound_renderer (Num 1980) one_museum_page
        = one_museum_page\<lparr>currentValue := Num 1980,
            circles := groupCoordinates (filter (open_at (Num 1980)) [museum 51 0]) (Num 40),
            lineChart_data := Some (filterLineChartData [museum 51 0])\<rparr>"
    by (simp add: slider_drag_def sliderCallback_ok [where fd = "[museum 51 0]"]
        one_museum_page_fields quiet_sound)
  then show ?thesis
    by (simp add: open_at_museum series_one_museum series_none groupCoordinates_def)
qed

section \<open>The point-size scale\<close>

lemma foldl_max_ge: "n \<le> foldl max n rest \<and> (\<forall>x\<in>set rest. x \<le> foldl max n (rest :: nat list))"
proof (induction rest arbitrary: n)
  case Nil
  then show ?case by simp
next
  case (Cons x xs)
  from Cons.IH [of "max n x"] show ?case by simp
qed

lemma foldl_max_pos:
  assumes "sum_list (n # rest) \<noteq> 0"
  shows "0 < foldl max n (rest :: nat list)"
proof -
  from assms obtain x where x: "x \<in> set (n # rest)" "0 < x"
    using sum_list_eq_0_iff [of "n # rest"] by auto
  with foldl_max_ge [of n rest] have "x \<le> foldl max n rest" by auto
  with x(2) show ?thesis by simp
qed

lemma d3_max_pos:
  assumes "sum_list ns \<noteq> 0"
  shows "\<exists>m. 0 < m \<and> d3_max ns = Num (real m)"
proof (cases ns)
  case Nil
  with assms show ?thesis by simp
next
  case (Cons n rest)
  from assms have "0 < foldl max n rest" unfolding Cons by (rule foldl_max_pos)
  with Cons show ?thesis by (auto simp: d3_max_def)
qed

lemma max_count_pos:
  assumes "dataset \<noteq> []"
  shows "\<exists>m. 0 < m \<and> d3_max (map snd (groupCoordinates dataset maxDistance)) = Num (real m)"
proof -
  have "sum_list (map snd (groupCoordinates dataset maxDistance)) = length dataset"
    using groupCoordinates_count [of dataset maxDistance] by (simp add: totalNumberOfPoints_def)
  with assms have "sum_list (map snd (groupCoordinates dataset maxDistance)) \<noteq> 0" by simp
  then show ?thesis by (rule d3_max_pos)
qed

lemma scaleSqrt_value:
  assumes "0 < m" "0 \<le> x"
  shows "scaleSqrt (Num 0, Num m) (Num 0, Num r) (Num x) = Num (sqrt x / sqrt m * r)"
  using assms
  by (simp add: scaleSqrt_def Math_sqrt_def plus_number_def minus_number_def times_number_def
      divide_number_def)

lemma renderGroupedPoints_scale:
  "pointScale (fst (renderGroupedPoints env dataset maxRadius_arg groupRadius_arg s))
   = Some (scaleSqrt
       (Num 0, d3_max (map snd (groupCoordinates dataset
          (case groupRadius_arg of None \<Rightarrow> Num 40 | Some r \<Rightarrow> r))))
       (Num 0, case maxRadius_arg of None \<Rightarrow> Num 15 | Some r \<Rightarrow> r))"
  "groupRadius (fst (renderGroupedPoints env dataset maxRadius_arg groupRadius_arg s))
   = (case groupRadius_arg of None \<Rightarrow> Num 40 | Some r \<Rightarrow> r)"
  "maxRadius (fst (renderGroupedPoints env dataset maxRadius_arg groupRadius_arg s))
   = (case maxRadius_arg of None \<Rightarrow> Num 15 | Some r \<Rightarrow> r)"
  by (simp_all add: renderGroupedPoints_def render_points_frame createSqrtScale_def Let_def)

lemma handle_scale: "pointScale (handle env s e) = pointScale s"
  by (cases e) (simp_all add: region_click_def slider_drag_def slider_tick_def sliderCallback_def
      mapRegionsFilterOnDate_def filterOnRegion_frame filterOnDate_frame toggleRegion_frame Let_def)

text \<open>
  C6, amended. After \<open>renderGroupedPoints\<close> of a dataset that is not empty, the scale
  of the map gives the count 0 the radius 0, the largest count of the clusters of that
  dataset the maximum radius (15 when none is given), and every count a radius
  proportional to its square root. \<open>updatePoints\<close>, a click on a region and a move of
  the slider leave the scale as it is.
\<close>

theorem createSqrtScale_ends:
  "(dataset \<noteq> [] \<and> (maxRadius_arg = None \<and> r = 15 \<or> maxRadius_arg = Some (Num r))
      \<and> s' = fst (renderGroupedPoints env dataset maxRadius_arg groupRadius_arg s) \<longrightarrow>
        maxRadius s' = Num r
        \<and> scale_at s' (Num 0) = Some (Num 0)
        \<and> scale_at s' (d3_max (map snd (groupCoordinates dataset (groupRadius s')))) = Some (Num r)
        \<and> (\<exists>m. 0 < m \<and> d3_max (map snd (groupCoordinates dataset (groupRadius s'))) = Num (real m)
              \<and> (\<forall>n. scale_at s' (Num (real n)) = Some (Num (sqrt (real n) / sqrt (real m) * r)))))
   \<and> pointScale (fst (updatePoints env newData s)) = pointScale s
   \<and> pointScale (handle env s e) = pointScale s"
proof (intro conjI impI)
  assume a: "dataset \<noteq> [] \<and> (maxRadius_arg = None \<and> r = 15 \<or> maxRadius_arg = Some (Num r))
      \<and> s' = fst (renderGroupedPoints env dataset maxRadius_arg groupRadius_arg s)"
  then have mr: "(case maxRadius_arg of None \<Rightarrow> Num 15 | Some r \<Rightarrow> r) = Num r" by auto
  from a have gr: "groupRadius s' = (case groupRadius_arg of None \<Rightarrow> Num 40 | Some r \<Rightarrow> r)"
    by (simp add: renderGroupedPoints_scale)
  from a have "dataset \<noteq> []" by simp
  from max_count_pos [OF this, of "groupRadius s'"] obtain m where
    m: "0 < m" "d3_max (map snd (groupCoordinates dataset (groupRadius s'))) = Num (real m)"
    by blast
  from a have sc: "pointScale s' = Some (scaleSqrt (Num 0, Num (real m)) (Num 0, Num r))"
    using m(2) by (simp add: renderGroupedPoints_scale mr gr)
  have val: "scale_at s' (Num (real n)) = Some (Num (sqrt (real n) / sqrt (real m) * r))" for n
    using m(1) by (simp add: scale_at_def sc scaleSqrt_value)
  show "maxRadius s' = Num r" using a by (simp add: renderGroupedPoints_scale mr)
  show "scale_at s' (Num 0) = Some (Num 0)" using val [of 0] by simp
  show "scale_at s' (d3_max (map snd (groupCoordinates dataset (groupRadius s')))) = Some (Num r)"
    using val [of m] m by simp
  show "\<exists>m. 0 < m \<and> d3_max (map snd (groupCoordinates dataset (groupRadius s'))) = Num (real m)
              \<and> (\<forall>n. scale_at s' (Num (real n)) = Some (Num (sqrt (real n) / sqrt (real m) * r)))"
    using m val by blast
next
  show "pointScale (fst (updatePoints env newData s)) = pointScale s"
    by (simp add: updatePoints_def render_points_frame)
  show "pointScale (handle env s e) = pointScale s"
    by (rule handle_scale)
qed

lemma cluster_two_museums: "groupCoordinates two_museums (Num 40) = [((Num 51, Num 0), 2)]"
  by (simp add: groupCoordinates_def two_museums_def mergeIntoClosestGroup_def findClosest.simps
      museum_def museum_years_def point_coords_def haversineDistance_same less_number_def
      plus_number_def times_number_def divide_number_def)

lemma two_museums_page_fields:
  "filteredData two_museums_page = Some two_museums"
  "groupRadius two_museums_page = Num 40"
  "maxRadius two_museums_page = Num 15"
  "pointScale two_museums_page = Some (scaleSqrt (Num 0, Num 2) (Num 0, Num 15))"
  by (simp_all add: two_museums_page_def renderGroupedPoints_scale cluster_two_museums d3_max_def)
    (simp_all add: renderGroupedPoints_def render_points_frame Let_def)

theorem createSqrtScale_ends_witness:
  "maxRadius two_museums_page = Num 15
   \<and> scale_at two_museums_page (Num 0) = Some (Num 0)
   \<and> scale_at two_museums_page (Num 2) = Some (Num 15)"
proof -
  have "two_museums \<noteq> [] \<and> ((None :: number option) = None \<and> (15::real) = 15 \<or> None = Some (Num 15))
      \<and> two_museums_page
         = fst (renderGroupedPoints sound_renderer two_museums None None (baseMap uk (new_page (Num 1990))))"
    by (simp add: two_museums_def two_museums_page_def)
  with createSqrtScale_ends [where dataset = two_museums and maxRadius_arg = None and r = 15
      and s' = two_museums_page and env = sound_renderer and groupRadius_arg = None
      and s = "baseMap uk (new_page (Num 1990))"]
  have "maxRadius two_museums_page = Num 15"
    and "scale_at two_museums_page (Num 0) = Some (Num 0)"
    and "scale_at two_museums_page
           (d3_max (map snd (groupCoordinates two_museums (groupRadius two_museums_page))))
         = Some (Num 15)"
    by blast+
  then show ?thesis
    by (simp add: two_museums_page_fields cluster_two_museums d3_max_def)
qed

text \<open>
  C6, as stated, fails. The scale is built by \<open>renderGroupedPoints\<close> from the clusters
  of the whole dataset. Two museums at one place give a largest count of 2; after the
  slider is dragged to 1995 one of them is left, the largest count of the clusters on the
  map is 1, and the scale, which is still the first one, gives it 15 divided by the
  square root of 2, not the maximum radius 15.
\<close>

theorem pointScale_not_recomputed_counterexample:
  "circles (slider_drag sound_renderer (Num 1995) two_museums_page) = [((Num 51, Num 0), 1)]
   \<and> d3_max (map snd (circles (slider_drag sound_renderer (Num 1995) two_museums_page))) = Num 1
   \<and> maxRadius (slider_drag sound_renderer (Num 1995) two_museums_page) = Num 15
   \<and> scale_at (slider_drag sound_renderer (Num 1995) two_museums_page) (Num 1)
     = Some (Num (15 / sqrt 2))
   \<and> scale_at (slider_drag sound_renderer (Num 1995) two_museums_page) (Num 1) \<noteq> Some (Num 15)"
proof -
  have kept: "filter (open_at (Num 1995)) two_museums = [museum 51 0]"
    by (simp add: two_museums_def open_at_museum)
      (simp add: open_at_def museum_years_def less_eq_number_def)
  have run: "slider_drag sound_renderer (Num 1995) two_museums_page
        = two_museums_page\<lparr>currentValue := Num 1995,
            circles := groupCoordinates (filter (open_at (Num 1995)) two_museums) (Num 40),
            lineChart_data := Some (filterLineChartData two_museums)\<rparr>"
    by (simp add: slider_drag_def sliderCallback_ok [where fd = two_museums]
        two_museums_page_fields quiet_sound)
  have "sqrt 2 \<noteq> 1" by simp
  then have "(15::real) / sqrt 2 \<noteq> 15" by (simp add: field_simps)
  then show ?thesis
    by (simp add: run kept groupCoordinates_single museum_fields d3_max_def scale_at_def
        two_museums_page_fields scaleSqrt_value)
qed

section \<open>Exceptions in the filters\<close>

lemma handle_data: "data (handle env s ev) = data s"
  by (cases ev) (simp_all add: region_click_def slider_drag_def slider_tick_def sliderCallback_def
      mapRegionsFilterOnDate_def filterOnRegion_frame filterOnDate_frame toggleRegion_frame Let_def)

lemma filterOnRegion_try_stores:
  assumes "data s = Some full" "\<not> filter_throws env full"
  shows "filterOnRegion_try env selected s
         = (filterOnDate env (currentValue s)
              (s\<lparr>filteredData := Some (filter (\<lambda>d. region d \<in> selected) full)\<rparr>), None)"
  using assms by (simp add: filterOnRegion_try_def mapRegionsFilterOnDate_def Let_def)

text \<open>
  C9, amended. When the \<^verbatim>\<open>try\<close> block of \<open>filterOnDate\<close> throws, \<open>filterOnDate\<close>
  returns normally: the exception is appended to the console, and the dataset and the
  region-filtered subset of the map are those of before. When the \<^verbatim>\<open>try\<close> block of
  \<open>filterOnRegion\<close> throws, which it does before it stores anything, \<open>filterOnRegion\<close>
  returns the state of before with the exception appended to the console. When the region
  filter has stored the new subset and the date filter it then calls throws, the
  exception is appended to the console, the dataset is that of before, and the stored
  subset is the new one. No click and no move of the slider changes the dataset.
\<close>

theorem filters_catch:
  "(filterOnDate_try env date s = (s1, Some e) \<longrightarrow>
      filterOnDate env date s = s1\<lparr>console := console s @ [e]\<rparr>
      \<and> data (filterOnDate env date s) = data s
      \<and> filteredData (filterOnDate env date s) = filteredData s)
   \<and> (filterOnRegion_try env selected s = (s1, Some e) \<longrightarrow>
      filterOnRegion env selected s = s\<lparr>console := console s @ [e]\<rparr>)
   \<and> (data s = Some full \<and> \<not> filter_throws env full
        \<and> filterOnDate_try env (currentValue s)
             (s\<lparr>filteredData := Some (filter (\<lambda>d. region d \<in> selected) full)\<rparr>) = (s1, Some e) \<longrightarrow>
      filterOnRegion env selected s = s1\<lparr>console := console s @ [e]\<rparr>
      \<and> data (filterOnRegion env selected s) = Some full
      \<and> filteredData (filterOnRegion env selected s)
        = Some (filter (\<lambda>d. region d \<in> selected) full))
   \<and> data (handle env s ev) = data s"
proof (intro conjI impI)
  assume t: "filterOnDate_try env date s = (s1, Some e)"
  then show "filterOnDate env date s = s1\<lparr>console := console s @ [e]\<rparr>"
    using filterOnDate_try_throws(1) [OF t] by (simp add: filterOnDate_def catch_log_def)
  show "data (filterOnDate env date s) = data s"
    by (rule filterOnDate_frame)
  show "filteredData (filterOnDate env date s) = filteredData s"
    by (rule filterOnDate_frame)
next
  assume t: "filterOnRegion_try env selected s = (s1, Some e)"
  with filterOnRegion_try_throws [OF t]
  show "filterOnRegion env selected s = s\<lparr>console := console s @ [e]\<rparr>"
    by (simp add: filterOnRegion_def catch_log_def)
next
  let ?t = "s\<lparr>filteredData := Some (filter (\<lambda>d. region d \<in> selected) full)\<rparr>"
  assume a: "data s = Some full \<and> \<not> filter_throws env full
        \<and> filterOnDate_try env (currentValue s) ?t = (s1, Some e)"
  then have run: "filterOnRegion env selected s = filterOnDate env (currentValue s) ?t"
    by (simp add: filterOnRegion_def filterOnRegion_try_stores catch_log_def)
  from a have t: "filterOnDate_try env (currentValue s) ?t = (s1, Some e)" by simp
  show "filterOnRegion env selected s = s1\<lparr>console := console s @ [e]\<rparr>"
    using filterOnDate_try_throws(1) [OF t]
    by (simp add: run filterOnDate_def t catch_log_def)
  show "data (filterOnRegion env selected s) = Some full"
    using a by (simp add: filterOnRegion_frame)
  show "filteredData (filterOnRegion env selected s)
        = Some (filter (\<lambda>d. region d \<in> selected) full)"
    by (simp add: run filterOnDate_frame)
next
  show "data (handle env s ev) = data s" by (rule handle_data)
qed

lemma one_museum_page_console: "console one_museum_page = []"
  by (simp add: one_museum_page_def renderGroupedPoints_def render_points_def Let_def
      sound_renderer_def baseMap_def new_page_def)

lemma stuck_date_filter:
  assumes "filteredData s = Some fd"
  shows "filterOnDate_try stuck_renderer date s = (s, Some DrawError)"
  using assms
  by (simp add: filterOnDate_try_def updatePoints_def render_points_def stuck_renderer_def Let_def)

theorem filters_catch_witness:
  "filterOnDate stuck_renderer (Num 2000) one_museum_page
     = one_museum_page\<lparr>console := [DrawError]\<rparr>
   \<and> filteredData (filterOnDate stuck_renderer (Num 2000) one_museum_page) = Some [museum 51 0]
   \<and> filterOnRegion unreadable_rows {''Scotland''} one_museum_page
     = one_museum_page\<lparr>console := [TypeError]\<rparr>
   \<and> filterOnRegion stuck_renderer {''Scotland''} one_museum_page
     = one_museum_page\<lparr>filteredData := Some [], console := [DrawError]\<rparr>"
proof -
  let ?s = one_museum_page
  have d: "filterOnDate_try stuck_renderer (Num 2000) ?s = (?s, Some DrawError)"
    by (rule stuck_date_filter) (simp add: one_museum_page_fields)
  with filters_catch [where env = stuck_renderer and date = "Num 2000" and s = ?s
      and ?s1.0 = ?s and e = DrawError]
  have "filterOnDate stuck_renderer (Num 2000) ?s = ?s\<lparr>console := console ?s @ [DrawError]\<rparr>"
    and "filteredData (filterOnDate stuck_renderer (Num 2000) ?s) = filteredData ?s"
    by blast+
  then have one: "filterOnDate stuck_renderer (Num 2000) ?s = ?s\<lparr>console := [DrawError]\<rparr>"
    "filteredData (filterOnDate stuck_renderer (Num 2000) ?s) = Some [museum 51 0]"
    by (simp_all add: one_museum_page_console one_museum_page_fields)
  have r: "filterOnRegion_try unreadable_rows {''Scotland''} ?s = (?s, Some TypeError)"
    by (simp add: filterOnRegion_try_def one_museum_page_fields unreadable_rows_def)
  with filters_catch [where env = unreadable_rows and selected = "{''Scotland''}" and s = ?s
      and ?s1.0 = ?s and e = TypeError]
  have "filterOnRegion unreadable_rows {''Scotland''} ?s = ?s\<lparr>console := console ?s @ [TypeError]\<rparr>"
    by blast
  then have two: "filterOnRegion unreadable_rows {''Scotland''} ?s = ?s\<lparr>console := [TypeError]\<rparr>"
    by (simp add: one_museum_page_console)
  let ?sub = "filter (\<lambda>d. region d \<in> {''Scotland''}) [museum 51 0]"
  let ?t = "?s\<lparr>filteredData := Some ?sub\<rparr>"
  have sub: "?sub = []" by (simp add: museum_fields)
  have "filterOnDate_try stuck_renderer (currentValue ?s) ?t = (?t, Some DrawError)"
    by (rule stuck_date_filter) simp
  then have "data ?s = Some [museum 51 0] \<and> \<not> filter_throws stuck_renderer [museum 51 0]
      \<and> filterOnDate_try stuck_renderer (currentValue ?s) ?t = (?t, Some DrawError)"
    by (simp add: one_museum_page_fields stuck_renderer_def)
  with filters_catch [where env = stuck_renderer and selected = "{''Scotland''}" and s = ?s
      and full = "[museum 51 0]" and ?s1.0 = ?t and e = DrawError]
  have "filterOnRegion stuck_renderer {''Scotland''} ?s = ?t\<lparr>console := console ?s @ [DrawError]\<rparr>"
    by blast
  then have three: "filterOnRegion stuck_renderer {''Scotland''} ?s
      = ?s\<lparr>filteredData := Some [], console := [DrawError]\<rparr>"
    unfolding sub by (simp add: one_museum_page_console)
  from one two three show ?thesis by simp
qed

text \<open>
  C9, as stated, fails. A click on a region stores the new subset before the map is
  redrawn. When the redraw throws, the exception is logged, but the subset of before, one
  museum, has been replaced by the new, empty one, while the circle of the museum stays
  on the map.
\<close>

theorem region_click_replaces_subset_counterexample:
  "filteredData one_museum_page = Some [museum 51 0]
   \<and> filteredData (region_click stuck_renderer 1 one_museum_page) = Some []
   \<and> circles (region_click stuck_renderer 1 one_museum_page) = [((Num 51, Num 0), 1)]
   \<and> console (region_click stuck_renderer 1 one_museum_page) = [DrawError]"
proof -
  define t where "t = toggleRegion 1 one_museum_page"
  have sel: "selectedRegions t = {''Scotland'', ''Wales'', ''Northern Ireland''}"
    by (simp add: t_def toggleRegion_def one_museum_page_fields uk_def Let_def) auto
  have sub: "filter (\<lambda>d. region d \<in> selectedRegions t) [museum 51 0] = []"
    unfolding sel by (simp add: museum_fields)
  have fields: "data t = Some [museum 51 0]" "currentValue t = Num 1990"
    "circles t = [((Num 51, Num 0), 1)]"
    by (simp_all add: t_def toggleRegion_frame one_museum_page_fields)
  have quiet_console: "console t = []"
    by (simp add: t_def toggleRegion_def Let_def one_museum_page_console)
  have "\<not> filter_throws stuck_renderer [museum 51 0]"
    by (simp add: stuck_renderer_def)
  from filterOnRegion_try_stores [OF fields(1) this, of "selectedRegions t"]
  have "filterOnRegion_try stuck_renderer (selectedRegions t) t
        = (filterOnDate stuck_renderer (Num 1990) (t\<lparr>filteredData := Some []\<rparr>), None)"
    unfolding sub fields(2) .
  moreover have "filterOnDate_try stuck_renderer (Num 1990) (t\<lparr>filteredData := Some []\<rparr>)
        = (t\<lparr>filteredData := Some []\<rparr>, Some DrawError)"
    by (rule stuck_date_filter) simp
  ultimately have "filterOnRegion stuck_renderer (selectedRegions t) t
      = t\<lparr>filteredData := Some [], console := [DrawError]\<rparr>"
    by (simp add: filterOnRegion_def filterOnDate_def catch_log_def quiet_console)
  then have "region_click stuck_renderer 1 one_museum_page
      = t\<lparr>filteredData := Some [], console := [DrawError]\<rparr>"
    by (simp add: region_click_def Let_def t_def)
  then show ?thesis by (simp add: fields one_museum_page_fields)
qed


end
